theory Spec2Isabelle
  imports Complex_Main "HOL-Library.Sublist" "HOL-Library.AList"
begin

section \<open>Python strings\<close>

text \<open>
  Strings are \<^typ>\<open>string\<close>; the development covers ASCII text, on which
  \<^verbatim>\<open>str.lower\<close>, \<^verbatim>\<open>str.split\<close>, \<^verbatim>\<open>str.strip\<close>, \<^verbatim>\<open>str.find\<close> and the
  \<^verbatim>\<open>in\<close> operator behave as defined here.
\<close>

definition upper_chars :: "char list" where
  "upper_chars = ''ABCDEFGHIJKLMNOPQRSTUVWXYZ''"

definition lower_char :: "char \<Rightarrow> char" where
  "lower_char c =
     (if c \<in> set upper_chars
      then (case c of Char b0 b1 b2 b3 b4 b5 b6 b7 \<Rightarrow> Char b0 b1 b2 b3 b4 True b6 b7)
      else c)"

definition lower :: "string \<Rightarrow> string" where
  "lower s = map lower_char s"

text \<open>The ASCII characters for which \<^verbatim>\<open>str.isspace\<close> holds.\<close>

definition space_chars :: "char list" where
  "space_chars =
     [CHR 0x09, CHR ''\<newline>'', CHR 0x0B, CHR 0x0C, CHR 0x0D,
      CHR 0x1C, CHR 0x1D, CHR 0x1E, CHR 0x1F, CHR '' '']"

definition is_space :: "char \<Rightarrow> bool" where
  "is_space c = (c \<in> set space_chars)"

text \<open>\<^verbatim>\<open>s.split()\<close>: the maximal runs of non-whitespace characters, in order.\<close>

fun split_acc :: "string \<Rightarrow> string \<Rightarrow> string list" where
  "split_acc cur [] = (if cur = [] then [] else [rev cur])"
| "split_acc cur (c # cs) =
     (if is_space c
      then (if cur = [] then split_acc [] cs else rev cur # split_acc [] cs)
      else split_acc (c # cur) cs)"

definition split :: "string \<Rightarrow> string list" where
  "split s = split_acc [] s"

definition lstrip :: "string \<Rightarrow> string" where
  "lstrip s = dropWhile is_space s"

definition rstrip :: "string \<Rightarrow> string" where
  "rstrip s = rev (dropWhile is_space (rev s))"

definition strip :: "string \<Rightarrow> string" where
  "strip s = rstrip (lstrip s)"

text \<open>
  \<^verbatim>\<open>s.find(sub)\<close>: the least index at which \<open>sub\<close> occurs, \<open>None\<close> for
  Python's \<open>-1\<close>.
\<close>

fun find_idx :: "string \<Rightarrow> string \<Rightarrow> nat option" where
  "find_idx sub [] = (if sub = [] then Some 0 else None)"
| "find_idx sub (c # cs) =
     (if prefix sub (c # cs) then Some 0 else map_option Suc (find_idx sub cs))"

text \<open>\<^verbatim>\<open>s.find(sub, start)\<close> for \<open>start \<le> len(s)\<close>.\<close>

definition find_from :: "string \<Rightarrow> string \<Rightarrow> nat \<Rightarrow> nat option" where
  "find_from sub s start = map_option (\<lambda>i. i + start) (find_idx sub (drop start s))"

text \<open>\<^verbatim>\<open>sub in s\<close>.\<close>

definition contains :: "string \<Rightarrow> string \<Rightarrow> bool" where
  "contains sub s = (find_idx sub s \<noteq> None)"

text \<open>\<^verbatim>\<open>sep.join(xs)\<close>.\<close>

fun join :: "string \<Rightarrow> string list \<Rightarrow> string" where
  "join sep [] = []"
| "join sep [x] = x"
| "join sep (x # y # ys) = x @ sep @ join sep (y # ys)"

subsection \<open>Rendering values as text\<close>

definition digit_char :: "nat \<Rightarrow> char" where
  "digit_char d = ''0123456789abcdef'' ! d"

fun str_nat :: "nat \<Rightarrow> string" where
  "str_nat n = (if n < 10 then [digit_char n] else str_nat (n div 10) @ [digit_char (n mod 10)])"

declare str_nat.simps [simp del]

definition str_int :: "int \<Rightarrow> string" where
  "str_int i = (if i < 0 then CHR ''-'' # str_nat (nat (- i)) else str_nat (nat i))"

text \<open>\<^verbatim>\<open>repr\<close> of an ASCII string.\<close>

definition repr_char :: "char \<Rightarrow> char \<Rightarrow> string" where
  "repr_char q c =
     (if c = CHR 0x5C then [CHR 0x5C, CHR 0x5C]
      else if c = q then [CHR 0x5C, q]
      else if c = CHR 0x09 then [CHR 0x5C, CHR ''t'']
      else if c = CHR ''\<newline>'' then [CHR 0x5C, CHR ''n'']
      else if c = CHR 0x0D then [CHR 0x5C, CHR ''r'']
      else if (of_char c :: nat) < 32 \<or> (of_char c :: nat) = 127
      then [CHR 0x5C, CHR ''x'', digit_char ((of_char c :: nat) div 16),
            digit_char ((of_char c :: nat) mod 16)]
      else [c])"

definition repr_str :: "string \<Rightarrow> string" where
  "repr_str s =
     (let q = (if CHR 0x27 \<in> set s \<and> CHR 0x22 \<notin> set s then CHR 0x22 else CHR 0x27)
      in q # concat (map (repr_char q) s) @ [q])"

section \<open>Values, errors and pattern records\<close>

text \<open>
  The values a YAML document or a pattern dictionary holds: \<^verbatim>\<open>None\<close>, booleans,
  integers, strings, lists, and dictionaries keyed by strings. A dictionary is an
  association list in insertion order; \<^const>\<open>map_of\<close> is \<^verbatim>\<open>dict.get\<close> and
  \<^const>\<open>AList.update\<close> is item assignment (the value is replaced where the key
  stands, a new key goes to the end).
\<close>

datatype pyval =
    PNone
  | PBool bool
  | PInt int
  | PStr string
  | PList "pyval list"
  | PDict "(string \<times> pyval) list"

type_synonym meta = "(string \<times> pyval) list"

text \<open>Exceptions, each with the text \<^verbatim>\<open>str(e)\<close> gives.\<close>

datatype error =
    NotImplementedError string
  | ValueError string
  | TypeError string
  | AttributeError string
  | YAMLError string
  | OSError string

fun str_error :: "error \<Rightarrow> string" where
  "str_error (NotImplementedError m) = m"
| "str_error (ValueError m) = m"
| "str_error (TypeError m) = m"
| "str_error (AttributeError m) = m"
| "str_error (YAMLError m) = m"
| "str_error (OSError m) = m"

fun type_name :: "pyval \<Rightarrow> string" where
  "type_name PNone = ''NoneType''"
| "type_name (PBool b) = ''bool''"
| "type_name (PInt i) = ''int''"
| "type_name (PStr s) = ''str''"
| "type_name (PList xs) = ''list''"
| "type_name (PDict kvs) = ''dict''"

fun py_repr :: "pyval \<Rightarrow> string" where
  "py_repr PNone = ''None''"
| "py_repr (PBool b) = (if b then ''True'' else ''False'')"
| "py_repr (PInt i) = str_int i"
| "py_repr (PStr s) = repr_str s"
| "py_repr (PList xs) = ''['' @ join '', '' (map py_repr xs) @ '']''"
| "py_repr (PDict kvs) =
     ''{'' @ join '', '' (map (\<lambda>(k, v). repr_str k @ '': '' @ py_repr v) kvs) @ ''}''"

text \<open>\<^verbatim>\<open>str(v)\<close>, which an f-string applies to the value it interpolates.\<close>

fun py_str :: "pyval \<Rightarrow> string" where
  "py_str (PStr s) = s"
| "py_str v = py_repr v"

text \<open>
  A pattern is a dictionary with the keys \<^verbatim>\<open>metadata\<close>, \<^verbatim>\<open>description\<close>,
  \<^verbatim>\<open>code\<close>, \<^verbatim>\<open>setup\<close>, \<^verbatim>\<open>usage\<close>, \<^verbatim>\<open>notes\<close> and \<^verbatim>\<open>language\<close>, each of
  which may be absent; the empty dictionary has none of them.
\<close>

record pattern =
  p_metadata :: "meta option"
  p_description :: "string option"
  p_code :: "string option"
  p_setup :: "string option"
  p_usage :: "string option"
  p_notes :: "string option"
  p_language :: "pyval option"

definition empty_pattern :: pattern where
  "empty_pattern =
     \<lparr>p_metadata = None, p_description = None, p_code = None, p_setup = None,
      p_usage = None, p_notes = None, p_language = None\<rparr>"

text \<open>\<^verbatim>\<open>d.get(k, default)\<close> on an absent or present entry.\<close>

definition get_default :: "'a option \<Rightarrow> 'a \<Rightarrow> 'a" where
  "get_default x d = (case x of None \<Rightarrow> d | Some v \<Rightarrow> v)"

section \<open>Pattern Validator\<close>

record validation =
  valid :: bool
  errors :: "string list"
  warnings :: "string list"

definition required_metadata :: "string list" where
  "required_metadata = [''task'', ''complexity'', ''tags'', ''dependencies'']"

text \<open>A text between single quotes.\<close>

definition quoted :: "string \<Rightarrow> string" where
  "quoted s = CHR 0x27 # s @ [CHR 0x27]"

text \<open>\<^verbatim>\<open>v > n\<close> for an integer \<open>n\<close>; a value that is not a number raises.\<close>

fun py_gt_int :: "pyval \<Rightarrow> int \<Rightarrow> error + bool" where
  "py_gt_int (PInt i) n = Inr (i > n)"
| "py_gt_int (PBool b) n = Inr ((if b then 1 else 0) > n)"
| "py_gt_int v n =
     Inl (TypeError (quoted ''>'' @ '' not supported between instances of ''
                     @ quoted (type_name v) @ '' and '' @ quoted ''int''))"

definition validate_pattern :: "pattern \<Rightarrow> error + validation" where
  "validate_pattern pattern =
     (let md = get_default (p_metadata pattern) [];
          errors1 = map (\<lambda>field. ''Missing required metadata: '' @ field)
                      (filter (\<lambda>field. map_of md field = None) required_metadata);
          code = get_default (p_code pattern) [];
          errors2 = errors1 @ (if length (strip code) < 50 then [''Pattern code too short''] else []);
          errors3 = errors2 @ (if contains ''TODO'' code \<or> contains ''pass'' code
                               then [''Pattern contains incomplete sections''] else []);
          complexity = get_default (map_of md ''complexity'') (PInt 0)
      in case py_gt_int complexity 5 of
           Inl e \<Rightarrow> Inl e
         | Inr exceeds \<Rightarrow>
             Inr \<lparr>valid = (length errors3 = 0),
                  errors = errors3,
                  warnings = (if exceeds
                              then [''Pattern complexity '' @ py_str complexity
                                    @ '' exceeds recommended max 5'']
                              else [])\<rparr>)"

section \<open>Domain selection\<close>

definition agent_keywords :: "(string \<times> string list) list" where
  "agent_keywords =
     [(''infrastructure'',
       [''setup'', ''install'', ''deploy'', ''config'', ''build'', ''nextjs'', ''next.js'',
        ''project'']),
      (''frontend_ui'',
       [''component'', ''ui'', ''button'', ''form'', ''layout'', ''page'', ''homepage'',
        ''navigation''])]"

text \<open>The loop over the keyword table: the first entry with a keyword in the task.\<close>

fun first_agent :: "string \<Rightarrow> (string \<times> string list) list \<Rightarrow> string option" where
  "first_agent task_lower [] = None"
| "first_agent task_lower ((agent_name, keywords) # rest) =
     (if list_ex (\<lambda>keyword. contains keyword task_lower) keywords
      then Some agent_name
      else first_agent task_lower rest)"

definition determine_agent :: "string \<Rightarrow> string" where
  "determine_agent task =
     (case first_agent (lower task) agent_keywords of
        Some agent_name \<Rightarrow> agent_name
      | None \<Rightarrow> ''frontend_ui'')"

section \<open>Pattern Codec\<close>

text \<open>
  The YAML library is a parameter of the codec: \<open>dump\<close> stands for
  \<^verbatim>\<open>yaml.dump(metadata, default_flow_style=False)\<close> and \<open>safe_load\<close> for
  \<^verbatim>\<open>yaml.safe_load\<close>, which may raise.
\<close>

text \<open>
  \<^verbatim>\<open>re.match(r'^---\n(.*?)\n---\n(.*)', content, re.DOTALL)\<close>: the text must open
  with a \<^verbatim>\<open>---\<close> line; the first group ends before the first following
  \<^verbatim>\<open>\n---\n\<close>, the second group is everything after it.
\<close>

definition match_frontmatter :: "string \<Rightarrow> (string \<times> string) option" where
  "match_frontmatter content =
     (if prefix ''---\<newline>'' content
      then (case find_idx ''\<newline>---\<newline>'' (drop 4 content) of
              None \<Rightarrow> None
            | Some i \<Rightarrow> Some (take i (drop 4 content), drop (i + 5) (drop 4 content)))
      else None)"

text \<open>The ASCII characters \<^verbatim>\<open>\w\<close> matches.\<close>

definition word_chars :: "char list" where
  "word_chars = ''abcdefghijklmnopqrstuvwxyzABCDEFGHIJKLMNOPQRSTUVWXYZ0123456789_''"

definition is_word :: "char \<Rightarrow> bool" where
  "is_word c = (c \<in> set word_chars)"

text \<open>
  \<^verbatim>\<open>re.search(r'```\w*\n(.*?)\n```', body, re.DOTALL)\<close>: \<open>match_fence\<close> is a match
  that starts at the head of the text (three backticks, the longest run of word
  characters, a newline, then the shortest text followed by a newline and three
  backticks); \<open>search_code\<close> takes the leftmost start with a match and returns
  the group.
\<close>

definition match_fence :: "string \<Rightarrow> string option" where
  "match_fence s =
     (if prefix ''```'' s
      then (case dropWhile is_word (drop 3 s) of
              [] \<Rightarrow> None
            | c # r \<Rightarrow>
                (if c = CHR ''\<newline>''
                 then (case find_idx ''\<newline>```'' r of
                         None \<Rightarrow> None
                       | Some i \<Rightarrow> Some (take i r))
                 else None))
      else None)"

fun search_code :: "string \<Rightarrow> string option" where
  "search_code [] = None"
| "search_code (c # cs) =
     (case match_fence (c # cs) of
        Some code \<Rightarrow> Some code
      | None \<Rightarrow> search_code cs)"

text \<open>\<^verbatim>\<open>text[a:b]\<close> and \<^verbatim>\<open>text[a:]\<close> for \<open>a \<le> b \<le> len(text)\<close>.\<close>

definition slice :: "string \<Rightarrow> nat \<Rightarrow> nat \<Rightarrow> string" where
  "slice text a b = take (b - a) (drop a text)"

definition extract_section :: "string \<Rightarrow> string \<Rightarrow> string option \<Rightarrow> string" where
  "extract_section text start end =
     (case find_idx start text of
        None \<Rightarrow> []
      | Some i \<Rightarrow>
          (let start_idx = i + length start
           in (case end of
                 None \<Rightarrow> strip (drop start_idx text)
               | Some e \<Rightarrow>
                   (if e = [] then strip (drop start_idx text)
                    else (case find_from e text start_idx of
                            None \<Rightarrow> strip (drop start_idx text)
                          | Some end_idx \<Rightarrow> strip (slice text start_idx end_idx))))))"

text \<open>
  A pattern file is what \<^verbatim>\<open>read_text\<close> gives for it: its content, or the error
  raised.
\<close>

type_synonym pattern_file = "error + string"

definition parse_pattern_file ::
  "(string \<Rightarrow> error + pyval) \<Rightarrow> pattern_file \<Rightarrow> error + pattern" where
  "parse_pattern_file safe_load filepath =
     (case filepath of
        Inl e \<Rightarrow> Inl e
      | Inr content \<Rightarrow>
          (case match_frontmatter content of
             None \<Rightarrow> Inr empty_pattern
           | Some (group1, body) \<Rightarrow>
               (case safe_load group1 of
                  Inl e \<Rightarrow> Inl e
                | Inr metadata \<Rightarrow>
                    (let code = (case search_code body of Some c \<Rightarrow> c | None \<Rightarrow> []);
                         description = extract_section body ''Description'' (Some ''## Code'');
                         setup = extract_section body ''## Setup Instructions'' (Some ''## Usage'');
                         usage = extract_section body ''## Usage'' (Some ''## Notes'');
                         notes = extract_section body ''## Notes'' None
                     in (case metadata of
                           PDict md \<Rightarrow>
                             Inr \<lparr>p_metadata = Some md,
                                  p_description = Some (strip description),
                                  p_code = Some code,
                                  p_setup = Some (strip setup),
                                  p_usage = Some (strip usage),
                                  p_notes = Some (strip notes),
                                  p_language =
                                    Some (get_default (map_of md ''language'') (PStr ''typescript''))\<rparr>
                         | _ \<Rightarrow>
                             Inl (AttributeError
                                    (quoted (type_name metadata) @ '' object has no attribute ''
                                     @ quoted ''get'')))))))"

text \<open>
  Serialisation writes the three stamps into the metadata dictionary it got from the
  pattern; when the pattern has no \<^verbatim>\<open>metadata\<close> key that dictionary is a fresh
  one and the pattern stays as it was. The function returns the document and the
  caller's pattern as it is after the call. The two readings of the clock are
  arguments.
\<close>

definition stamp :: "string \<Rightarrow> string \<Rightarrow> meta \<Rightarrow> meta" where
  "stamp created_now updated_now metadata =
     AList.update ''version'' (PStr ''1.0.0'')
       (AList.update ''updated'' (PStr updated_now)
          (AList.update ''created'' (PStr created_now) metadata))"

definition format_pattern_markdown ::
  "(meta \<Rightarrow> string) \<Rightarrow> string \<Rightarrow> string \<Rightarrow> pattern \<Rightarrow> string \<times> pattern" where
  "format_pattern_markdown dump created_now updated_now pattern =
     (let metadata = stamp created_now updated_now (get_default (p_metadata pattern) []);
          frontmatter = dump metadata
      in (''---\<newline>'' @ frontmatter @ ''---\<newline>\<newline># ''
          @ py_str (get_default (map_of metadata ''task'') (PStr ''Pattern''))
          @ ''\<newline>\<newline>## Description\<newline>\<newline>''
          @ get_default (p_description pattern) []
          @ ''\<newline>\<newline>## Setup Instructions\<newline>\<newline>''
          @ get_default (p_setup pattern) ''No additional setup required.''
          @ ''\<newline>\<newline>## Usage\<newline>\<newline>''
          @ get_default (p_usage pattern) []
          @ ''\<newline>\<newline>## Notes\<newline>\<newline>''
          @ get_default (p_notes pattern) []
          @ ''\<newline>\<newline>## Code\<newline>\<newline>```''
          @ py_str (get_default (p_language pattern) (PStr ''typescript''))
          @ ''\<newline>''
          @ get_default (p_code pattern) []
          @ ''\<newline>```\<newline>'',
          (case p_metadata pattern of
             None \<Rightarrow> pattern
           | Some m \<Rightarrow> pattern\<lparr>p_metadata := Some metadata\<rparr>)))"

section \<open>Pattern Matcher\<close>

text \<open>
  The score is a quotient of two word counts. The source computes it in floating
  point and compares it with \<^verbatim>\<open>0.3\<close>; for counts below \<open>2^26\<close> two such quotients
  compare as the rationals do, and a quotient exceeds the double nearest to \<open>0.3\<close>
  exactly when it exceeds \<open>3/10\<close>, so the score is a \<^typ>\<open>rat\<close> here.
\<close>

definition match_score :: "string \<Rightarrow> string \<Rightarrow> rat" where
  "match_score task_lower pattern_task =
     (let task_words = set (split task_lower);
          pattern_words = set (split pattern_task);
          common_words = task_words \<inter> pattern_words
      in if common_words \<noteq> {}
         then of_nat (card common_words) / of_nat (max (card task_words) (card pattern_words))
         else 0)"

text \<open>
  \<^verbatim>\<open>pattern.get('metadata', {}).get('task', '').lower()\<close>: a task that is not a
  string has no \<^verbatim>\<open>lower\<close>.
\<close>

definition pattern_task_of :: "pattern \<Rightarrow> error + string" where
  "pattern_task_of pattern =
     (case get_default (map_of (get_default (p_metadata pattern) []) ''task'') (PStr []) of
        PStr s \<Rightarrow> Inr (lower s)
      | v \<Rightarrow> Inl (AttributeError (quoted (type_name v) @ '' object has no attribute ''
                                  @ quoted ''lower'')))"

text \<open>
  The loop of \<^verbatim>\<open>find_pattern\<close>. A candidate is the outcome of parsing one file; an
  exception anywhere in the body of the loop skips the candidate.
\<close>

fun find_pattern_loop ::
  "string \<Rightarrow> pattern option \<Rightarrow> rat \<Rightarrow> (error + pattern) list \<Rightarrow> pattern option" where
  "find_pattern_loop task_lower best_match best_score [] = best_match"
| "find_pattern_loop task_lower best_match best_score (candidate # rest) =
     (case candidate of
        Inl e \<Rightarrow> find_pattern_loop task_lower best_match best_score rest
      | Inr pattern \<Rightarrow>
          (case pattern_task_of pattern of
             Inl e \<Rightarrow> find_pattern_loop task_lower best_match best_score rest
           | Inr pattern_task \<Rightarrow>
               (if task_lower = pattern_task then Some pattern
                else (let score = match_score task_lower pattern_task
                      in if score > best_score \<and> score > 3 / 10
                         then find_pattern_loop task_lower (Some pattern) score rest
                         else find_pattern_loop task_lower best_match best_score rest))))"

text \<open>
  The store of a domain: \<open>None\<close> when the directory does not exist, else its
  \<^verbatim>\<open>*.md\<close> files by name, in the order \<^verbatim>\<open>glob\<close> lists them.
\<close>

type_synonym store = "(string \<times> pattern_file) list option"

definition find_pattern ::
  "(string \<Rightarrow> error + pyval) \<Rightarrow> store \<Rightarrow> string \<Rightarrow> pattern option" where
  "find_pattern safe_load st task =
     (case st of
        None \<Rightarrow> None
      | Some files \<Rightarrow>
          find_pattern_loop (lower task) None 0
            (map (\<lambda>(name, pattern_file). parse_pattern_file safe_load pattern_file) files))"

section \<open>Store access and logs\<close>

text \<open>
  What an invocation reads and writes: the domain's store, the two append-only logs,
  and the clock, of which \<open>ticks\<close> counts the readings taken so far. Appending to a
  log file is taken to succeed; what \<^verbatim>\<open>print\<close> writes is left out.
\<close>

record metrics =
  m_timestamp :: string
  m_task :: string
  m_domain :: string
  m_pattern_reused :: bool
  m_patterns_total :: nat

record world =
  patterns :: store
  metrics_log :: "metrics list"
  errors_log :: "string list"
  ticks :: nat

definition patterns_dir :: "string \<Rightarrow> string" where
  "patterns_dir domain = ''.ai/patterns/'' @ domain"

text \<open>
  The file name of a pattern: \<^verbatim>\<open>re.sub(r'[^\w\s-]', '', task.lower())\<close>, then
  \<^verbatim>\<open>re.sub(r'[-\s]+', '-', ...)\<close>, cut to 50 characters.
\<close>

definition is_sep :: "char \<Rightarrow> bool" where
  "is_sep c = (c = CHR ''-'' \<or> is_space c)"

fun collapse_runs :: "bool \<Rightarrow> string \<Rightarrow> string" where
  "collapse_runs in_run [] = []"
| "collapse_runs in_run (c # cs) =
     (if is_sep c
      then (if in_run then collapse_runs True cs else CHR ''-'' # collapse_runs True cs)
      else c # collapse_runs False cs)"

definition pattern_filename :: "string \<Rightarrow> string" where
  "pattern_filename task =
     take 50 (collapse_runs False (filter (\<lambda>c. is_word c \<or> is_sep c) (lower task))) @ ''.md''"

text \<open>
  \<^verbatim>\<open>save_pattern\<close>: the document is formatted (the clock is read twice, the
  pattern's metadata is stamped), then written under the file name; writing into a
  directory that does not exist raises. The result is the path, the pattern after
  the call and the new state.
\<close>

definition save_pattern ::
  "(meta \<Rightarrow> string) \<Rightarrow> (nat \<Rightarrow> string) \<Rightarrow> string \<Rightarrow> pattern \<Rightarrow> string \<Rightarrow> world
     \<Rightarrow> (error + string) \<times> pattern \<times> world" where
  "save_pattern dump now domain pattern task w =
     (let filename = pattern_filename task;
          filepath = patterns_dir domain @ ''/'' @ filename;
          (content, pattern') =
             format_pattern_markdown dump (now (ticks w)) (now (Suc (ticks w))) pattern;
          w1 = w\<lparr>ticks := ticks w + 2\<rparr>
      in (case patterns w1 of
            None \<Rightarrow>
              (Inl (OSError (''[Errno 2] No such file or directory: '' @ quoted filepath)),
               pattern', w1)
          | Some files \<Rightarrow>
              (Inr filepath, pattern',
               w1\<lparr>patterns := Some (AList.update filename (Inr content) files)\<rparr>)))"

definition generate_from_pattern :: "pattern \<Rightarrow> string \<Rightarrow> string" where
  "generate_from_pattern pattern task = get_default (p_code pattern) []"

definition log_metrics ::
  "(nat \<Rightarrow> string) \<Rightarrow> string \<Rightarrow> string \<Rightarrow> bool \<Rightarrow> world \<Rightarrow> world" where
  "log_metrics now domain task pattern_reused w =
     w\<lparr>metrics_log := metrics_log w @
          [\<lparr>m_timestamp = now (ticks w),
            m_task = task,
            m_domain = domain,
            m_pattern_reused = pattern_reused,
            m_patterns_total = (case patterns w of None \<Rightarrow> 0 | Some files \<Rightarrow> length files)\<rparr>],
       ticks := Suc (ticks w)\<rparr>"

definition log_error :: "(nat \<Rightarrow> string) \<Rightarrow> string \<Rightarrow> world \<Rightarrow> world" where
  "log_error now error_message w =
     w\<lparr>errors_log := errors_log w @ [now (ticks w) @ '' - '' @ error_message @ ''\<newline>''],
       ticks := Suc (ticks w)\<rparr>"

definition handle_error ::
  "(nat \<Rightarrow> string) \<Rightarrow> string \<Rightarrow> error \<Rightarrow> string \<Rightarrow> world \<Rightarrow> string \<times> world" where
  "handle_error now domain e task w =
     (let error_message = ''Error processing task '' @ quoted task @ '': '' @ str_error e
      in (''\<newline>## Error Encountered\<newline>\<newline>'' @ error_message
          @ ''\<newline>\<newline>### Troubleshooting Steps:\<newline>''
          @ ''1. Check that the philosophy.md file exists\<newline>''
          @ ''2. Verify the pattern directory structure\<newline>''
          @ ''3. Try creating the pattern manually first\<newline>\<newline>''
          @ ''### Fallback Action:\<newline>''
          @ ''You can create the pattern manually in: '' @ patterns_dir domain @ ''\<newline>'',
          log_error now error_message w))"

section \<open>Agent Dispatch\<close>

text \<open>
  An agent is its domain and its \<^verbatim>\<open>create_pattern\<close>. A dictionary is false in a
  condition when it is empty.
\<close>

definition falsy :: "pattern option \<Rightarrow> bool" where
  "falsy found = (found = None \<or> found = Some empty_pattern)"

text \<open>
  The miss branch of \<^verbatim>\<open>execute\<close>: create, validate, save, generate, log. The
  flag \<^verbatim>\<open>pattern is not None\<close> is computed on the pattern just created.
\<close>

definition create_and_save ::
  "(string \<Rightarrow> error + pattern) \<Rightarrow> (meta \<Rightarrow> string) \<Rightarrow> (nat \<Rightarrow> string) \<Rightarrow> string \<Rightarrow> string
     \<Rightarrow> world \<Rightarrow> (error + string) \<times> world" where
  "create_and_save create_pattern dump now domain task w =
     (case create_pattern task of
        Inl e \<Rightarrow> (Inl e, w)
      | Inr created \<Rightarrow>
          (case validate_pattern created of
             Inl e \<Rightarrow> (Inl e, w)
           | Inr validation_result \<Rightarrow>
               (if \<not> valid validation_result
                then (Inl (ValueError (''Pattern validation failed: ''
                            @ py_repr (PList (map PStr (errors validation_result))))), w)
                else (case save_pattern dump now domain created task w of
                        (Inl e, pattern, w1) \<Rightarrow> (Inl e, w1)
                      | (Inr pattern_path, pattern, w1) \<Rightarrow>
                          (Inr (generate_from_pattern pattern task),
                           log_metrics now domain task (Some pattern \<noteq> None) w1)))))"

text \<open>The body of the \<^verbatim>\<open>try\<close> block of \<^verbatim>\<open>execute\<close>.\<close>

definition execute_body ::
  "(string \<Rightarrow> error + pattern) \<Rightarrow> (meta \<Rightarrow> string) \<Rightarrow> (string \<Rightarrow> error + pyval)
     \<Rightarrow> (nat \<Rightarrow> string) \<Rightarrow> string \<Rightarrow> string \<Rightarrow> world \<Rightarrow> (error + string) \<times> world" where
  "execute_body create_pattern dump safe_load now domain task w =
     (case find_pattern safe_load (patterns w) task of
        None \<Rightarrow> create_and_save create_pattern dump now domain task w
      | Some pattern \<Rightarrow>
          (if pattern = empty_pattern
           then create_and_save create_pattern dump now domain task w
           else (Inr (generate_from_pattern pattern task),
                 log_metrics now domain task (Some pattern \<noteq> None) w)))"

definition execute ::
  "(string \<Rightarrow> error + pattern) \<Rightarrow> (meta \<Rightarrow> string) \<Rightarrow> (string \<Rightarrow> error + pyval)
     \<Rightarrow> (nat \<Rightarrow> string) \<Rightarrow> string \<Rightarrow> string \<Rightarrow> world \<Rightarrow> string \<times> world" where
  "execute create_pattern dump safe_load now domain task w =
     (case execute_body create_pattern dump safe_load now domain task w of
        (Inr code, w1) \<Rightarrow> (code, w1)
      | (Inl e, w1) \<Rightarrow> handle_error now domain e task w1)"

text \<open>The two concrete agents.\<close>

definition frontend_domain :: string where
  "frontend_domain = ''frontend''"

definition frontend_refusal :: "string \<Rightarrow> string" where
  "frontend_refusal task =
     ''Frontend UI agent cannot create patterns inline for: '' @ task @ ''\<newline>''
     @ ''Patterns must be created separately and added to .ai/patterns/frontend/\<newline>''
     @ ''Use: python3 .ai/orchestrator.py create '' @ quoted ''{task}''
     @ '' to create a pattern manually''"

definition frontend_create_pattern :: "string \<Rightarrow> error + pattern" where
  "frontend_create_pattern task = Inl (NotImplementedError (frontend_refusal task))"

definition infrastructure_domain :: string where
  "infrastructure_domain = ''infrastructure''"

definition infrastructure_refusal :: "string \<Rightarrow> string" where
  "infrastructure_refusal task =
     ''Infrastructure agent cannot create patterns inline for: '' @ task @ ''\<newline>''
     @ ''Patterns must be created separately and added to .ai/patterns/infrastructure/\<newline>''
     @ ''Use: python3 .ai/orchestrator.py create '' @ quoted ''{task}''
     @ '' to create a pattern manually''"

definition infrastructure_create_pattern :: "string \<Rightarrow> error + pattern" where
  "infrastructure_create_pattern task = Inl (NotImplementedError (infrastructure_refusal task))"

section \<open>Reading a pattern\<close>

definition metadata_of :: "pattern \<Rightarrow> meta" where
  "metadata_of p = get_default (p_metadata p) []"

definition code_of :: "pattern \<Rightarrow> string" where
  "code_of p = get_default (p_code p) []"

text \<open>The values that compare with an integer.\<close>

fun numeric :: "pyval \<Rightarrow> bool" where
  "numeric (PInt i) = True"
| "numeric (PBool b) = True"
| "numeric v = False"

section \<open>Example data\<close>

definition homepage_code :: string where
  "homepage_code = ''export default function Home() { return <main>Hello</main> }''"

definition short_code :: string where
  "short_code = ''export const x = 1; export const y = 22;''"

definition example_pattern :: "meta \<Rightarrow> string \<Rightarrow> pattern" where
  "example_pattern md c =
     \<lparr>p_metadata = Some md, p_description = Some ''A page'', p_code = Some c,
      p_setup = Some ''None'', p_usage = Some ''Import it'', p_notes = Some ''Static'',
      p_language = Some (PStr ''typescript'')\<rparr>"

definition complete_metadata :: "int \<Rightarrow> meta" where
  "complete_metadata c =
     [(''task'', PStr ''create homepage''), (''complexity'', PInt c),
      (''tags'', PList [PStr ''ui'']), (''dependencies'', PList [PStr ''react''])]"

definition metadata_without_dependencies :: meta where
  "metadata_without_dependencies =
     [(''task'', PStr ''create homepage''), (''complexity'', PInt 2),
      (''tags'', PList [PStr ''ui''])]"

text \<open>
  A clock, and one dump and one load for the example metadata stamped at its first two
  readings. The YAML library is not part of the sources; the text below is written as
  \<^verbatim>\<open>yaml.dump\<close> is understood to print this dictionary (keys sorted, a text
  that reads as a timestamp between quotes) and is not a recorded output of the
  library. The properties that use it need only that the dump ends with a newline,
  holds no \<^verbatim>\<open>---\<close> line, and loads back to the same entries.
\<close>

definition example_now :: "nat \<Rightarrow> string" where
  "example_now n = ''2026-01-01T12:00:0'' @ [digit_char (n mod 10)]"

definition example_frontmatter :: string where
  "example_frontmatter =
     ''complexity: 2\<newline>''
     @ ''created: '' @ quoted ''2026-01-01T12:00:00'' @ ''\<newline>''
     @ ''dependencies:\<newline>- react\<newline>''
     @ ''tags:\<newline>- ui\<newline>''
     @ ''task: create homepage\<newline>''
     @ ''updated: '' @ quoted ''2026-01-01T12:00:01'' @ ''\<newline>''
     @ ''version: 1.0.0''"

definition example_loaded :: meta where
  "example_loaded =
     [(''complexity'', PInt 2), (''created'', PStr ''2026-01-01T12:00:00''),
      (''dependencies'', PList [PStr ''react'']), (''tags'', PList [PStr ''ui'']),
      (''task'', PStr ''create homepage''), (''updated'', PStr ''2026-01-01T12:00:01''),
      (''version'', PStr ''1.0.0'')]"

definition example_dump :: "meta \<Rightarrow> string" where
  "example_dump m =
     (if m = stamp (example_now 0) (example_now 1) (complete_metadata 2)
      then example_frontmatter @ ''\<newline>'' else ''{}\<newline>'')"

definition example_safe_load :: "string \<Rightarrow> error + pyval" where
  "example_safe_load s =
     (if s = example_frontmatter then Inr (PDict example_loaded)
      else Inl (YAMLError ''could not read the document''))"

definition empty_world :: world where
  "empty_world = \<lparr>patterns = Some [], metrics_log = [], errors_log = [], ticks = 0\<rparr>"

section \<open>Candidates of the matcher\<close>

text \<open>
  The task label the loop reads from a candidate, lower-cased; \<open>None\<close> for a
  candidate the loop skips (its file did not parse, or its task is not a string).
\<close>

definition label_of :: "error + pattern \<Rightarrow> string option" where
  "label_of candidate =
     (case candidate of
        Inl e \<Rightarrow> None
      | Inr pattern \<Rightarrow> (case pattern_task_of pattern of Inl e \<Rightarrow> None | Inr l \<Rightarrow> Some l))"

definition labelled_pattern :: "string \<Rightarrow> string \<Rightarrow> pattern" where
  "labelled_pattern l c =
     example_pattern
       [(''task'', PStr l), (''complexity'', PInt 2), (''tags'', PList []),
        (''dependencies'', PList [])] c"

definition twenty_words :: string where
  "twenty_words = ''a b c d e f g h i j k l m n o p q r s t''"

section \<open>The serialised document\<close>

text \<open>
  The part of a serialised document after the frontmatter, from the title \<open>T\<close>, the
  four sections, the language tag \<open>L\<close> and the code.
\<close>

definition body_text ::
  "string \<Rightarrow> string \<Rightarrow> string \<Rightarrow> string \<Rightarrow> string \<Rightarrow> string \<Rightarrow> string \<Rightarrow> string" where
  "body_text T D s u N L c =
     ''\<newline># '' @ T @ ''\<newline>\<newline>## Description\<newline>\<newline>'' @ D
     @ ''\<newline>\<newline>## Setup Instructions\<newline>\<newline>'' @ s
     @ ''\<newline>\<newline>## Usage\<newline>\<newline>'' @ u
     @ ''\<newline>\<newline>## Notes\<newline>\<newline>'' @ N
     @ ''\<newline>\<newline>## Code\<newline>\<newline>```'' @ L @ ''\<newline>'' @ c @ ''\<newline>```\<newline>''"

text \<open>The title, the sections and the language tag the serialiser prints for a pattern.\<close>

definition title_of :: "pattern \<Rightarrow> string" where
  "title_of p = py_str (get_default (map_of (metadata_of p) ''task'') (PStr ''Pattern''))"

definition description_of :: "pattern \<Rightarrow> string" where
  "description_of p = get_default (p_description p) []"

definition notes_of :: "pattern \<Rightarrow> string" where
  "notes_of p = get_default (p_notes p) []"

definition language_of :: "pattern \<Rightarrow> string" where
  "language_of p = py_str (get_default (p_language p) (PStr ''typescript''))"

text \<open>A marker occurs in none of the texts.\<close>

definition free_of :: "string \<Rightarrow> string list \<Rightarrow> bool" where
  "free_of marker texts = list_all (\<lambda>t. \<not> sublist marker t) texts"

section \<open>Substring search\<close>

lemma find_idx_None_iff: "find_idx sub s = None \<longleftrightarrow> \<not> sublist sub s"
  by (induction s) (auto simp: sublist_code(3) sublist_Cons_right)

lemma contains_iff_sublist: "contains sub s \<longleftrightarrow> sublist sub s"
  by (simp add: contains_def find_idx_None_iff)

section \<open>Domain selection: properties\<close>

lemma first_agent_find:
  "first_agent t table =
     map_option fst (List.find (\<lambda>(name, keywords). \<exists>k\<in>set keywords. sublist k t) table)"
  by (induction table) (auto simp: list_ex_iff contains_iff_sublist)

text \<open>
  Claim C8. The domain of a task is the first entry of the keyword table one of
  whose keywords occurs in the lower-cased task, and \<^verbatim>\<open>frontend_ui\<close> when no
  entry has one; two tasks that differ in letter case only get the same domain; any
  casing of \<^verbatim>\<open>setup nextjs project\<close> goes to \<^verbatim>\<open>infrastructure\<close>.
\<close>

theorem determine_agent_first_match:
  "determine_agent task =
     (case List.find (\<lambda>(name, keywords). \<exists>k\<in>set keywords. sublist k (lower task)) agent_keywords of
        Some (name, keywords) \<Rightarrow> name
      | None \<Rightarrow> ''frontend_ui'')
   \<and> (lower task = lower task' \<longrightarrow> determine_agent task = determine_agent task')
   \<and> (lower task = ''setup nextjs project'' \<longrightarrow> determine_agent task = ''infrastructure'')"
proof -
  have a: "determine_agent task =
     (case List.find (\<lambda>(name, keywords). \<exists>k\<in>set keywords. sublist k (lower task)) agent_keywords of
        Some (name, keywords) \<Rightarrow> name
      | None \<Rightarrow> ''frontend_ui'')"
    by (simp add: determine_agent_def first_agent_find split: option.splits)
  have b: "lower task = lower task' \<longrightarrow> determine_agent task = determine_agent task'"
    by (simp add: determine_agent_def)
  have "contains ''setup'' ''setup nextjs project''"
    by (simp add: contains_def)
  then have c: "lower task = ''setup nextjs project'' \<longrightarrow> determine_agent task = ''infrastructure''"
    by (simp add: determine_agent_def agent_keywords_def)
  from a b c show ?thesis by blast
qed

theorem determine_agent_first_match_witness:
  "lower ''Setup NextJS Project'' = ''setup nextjs project''
   \<and> lower ''Setup NextJS Project'' = lower ''SETUP NEXTJS PROJECT''
   \<and> determine_agent ''Setup NextJS Project'' = ''infrastructure''
   \<and> determine_agent ''SETUP NEXTJS PROJECT'' = ''infrastructure''"
proof -
  have l1: "lower ''Setup NextJS Project'' = ''setup nextjs project''"
    by (simp add: lower_def lower_char_def upper_chars_def)
  have l2: "lower ''SETUP NEXTJS PROJECT'' = ''setup nextjs project''"
    by (simp add: lower_def lower_char_def upper_chars_def)
  note t = determine_agent_first_match [of "''Setup NextJS Project''" "''SETUP NEXTJS PROJECT''"]
  from t l1 have d1: "determine_agent ''Setup NextJS Project'' = ''infrastructure''"
    by blast
  from t have "lower ''Setup NextJS Project'' = lower ''SETUP NEXTJS PROJECT''
      \<longrightarrow> determine_agent ''Setup NextJS Project'' = determine_agent ''SETUP NEXTJS PROJECT''"
    by blast
  with l1 l2 have "determine_agent ''Setup NextJS Project'' = determine_agent ''SETUP NEXTJS PROJECT''"
    by simp
  with d1 l1 l2 show ?thesis by simp
qed

section \<open>Pattern Validator: properties\<close>

lemma py_gt_int_numeric: "numeric v \<Longrightarrow> \<exists>b. py_gt_int v n = Inr b"
  by (cases v) auto

lemma str_nat_7: "str_nat 7 = ''7''"
  by (simp add: str_nat.simps digit_char_def)

text \<open>
  Claim C5. For a pattern whose complexity, when present, is a number, validation
  returns a result; its \<open>valid\<close> flag holds exactly when the list of errors is
  empty, whatever the warnings are. A pattern without the \<^verbatim>\<open>dependencies\<close> key is
  invalid with an error that names the key; a pattern whose trimmed code has 40
  characters is invalid with the error about the code length; a pattern that passes
  every error check and has complexity 7 is valid and carries one warning.
\<close>

theorem validate_pattern_valid_iff_no_errors:
  assumes "numeric (get_default (map_of (metadata_of p) ''complexity'') (PInt 0))"
  shows "\<exists>r. validate_pattern p = Inr r
     \<and> (valid r \<longleftrightarrow> errors r = [])
     \<and> (map_of (metadata_of p) ''dependencies'' = None \<longrightarrow>
          \<not> valid r \<and> ''Missing required metadata: dependencies'' \<in> set (errors r))
     \<and> (length (strip (code_of p)) = 40 \<longrightarrow>
          \<not> valid r \<and> ''Pattern code too short'' \<in> set (errors r))
     \<and> ((\<forall>field\<in>set required_metadata. map_of (metadata_of p) field \<noteq> None)
          \<and> 50 \<le> length (strip (code_of p))
          \<and> \<not> sublist ''TODO'' (code_of p) \<and> \<not> sublist ''pass'' (code_of p)
          \<and> map_of (metadata_of p) ''complexity'' = Some (PInt 7) \<longrightarrow>
          valid r \<and> warnings r = [''Pattern complexity 7 exceeds recommended max 5''])"
proof -
  from assms obtain b where b: "py_gt_int (get_default (map_of (metadata_of p) ''complexity'') (PInt 0)) 5 = Inr b"
    using py_gt_int_numeric by blast
  show ?thesis
    using b
    by (auto simp: validate_pattern_def metadata_of_def code_of_def Let_def required_metadata_def
        contains_iff_sublist get_default_def str_int_def str_nat_7)
qed

theorem validate_pattern_valid_iff_no_errors_witness:
  "(\<exists>r. validate_pattern (example_pattern metadata_without_dependencies homepage_code) = Inr r
        \<and> \<not> valid r \<and> ''Missing required metadata: dependencies'' \<in> set (errors r))
   \<and> (\<exists>r. validate_pattern (example_pattern (complete_metadata 2) short_code) = Inr r
        \<and> \<not> valid r \<and> ''Pattern code too short'' \<in> set (errors r))
   \<and> (\<exists>r. validate_pattern (example_pattern (complete_metadata 7) homepage_code) = Inr r
        \<and> valid r \<and> errors r = []
        \<and> warnings r = [''Pattern complexity 7 exceeds recommended max 5''])"
proof -
  let ?p1 = "example_pattern metadata_without_dependencies homepage_code"
  let ?p2 = "example_pattern (complete_metadata 2) short_code"
  let ?p3 = "example_pattern (complete_metadata 7) homepage_code"
  have n1: "numeric (get_default (map_of (metadata_of ?p1) ''complexity'') (PInt 0))"
    by (simp add: metadata_of_def example_pattern_def metadata_without_dependencies_def get_default_def)
  have h1: "map_of (metadata_of ?p1) ''dependencies'' = None"
    by (simp add: metadata_of_def example_pattern_def metadata_without_dependencies_def get_default_def)
  have n2: "numeric (get_default (map_of (metadata_of ?p2) ''complexity'') (PInt 0))"
    by (simp add: metadata_of_def example_pattern_def complete_metadata_def get_default_def)
  have h2: "length (strip (code_of ?p2)) = 40"
    by (simp add: code_of_def example_pattern_def get_default_def short_code_def strip_def
        lstrip_def rstrip_def is_space_def space_chars_def)
  have n3: "numeric (get_default (map_of (metadata_of ?p3) ''complexity'') (PInt 0))"
    by (simp add: metadata_of_def example_pattern_def complete_metadata_def get_default_def)
  have h3: "(\<forall>field\<in>set required_metadata. map_of (metadata_of ?p3) field \<noteq> None)
          \<and> 50 \<le> length (strip (code_of ?p3))
          \<and> \<not> sublist ''TODO'' (code_of ?p3) \<and> \<not> sublist ''pass'' (code_of ?p3)
          \<and> map_of (metadata_of ?p3) ''complexity'' = Some (PInt 7)"
    by (simp add: metadata_of_def code_of_def example_pattern_def complete_metadata_def
        get_default_def required_metadata_def homepage_code_def strip_def lstrip_def rstrip_def
        is_space_def space_chars_def sublist_code(3))
  from validate_pattern_valid_iff_no_errors [OF n1] h1
  have c1: "\<exists>r. validate_pattern ?p1 = Inr r
        \<and> \<not> valid r \<and> ''Missing required metadata: dependencies'' \<in> set (errors r)"
    by blast
  from validate_pattern_valid_iff_no_errors [OF n2] h2
  have c2: "\<exists>r. validate_pattern ?p2 = Inr r
        \<and> \<not> valid r \<and> ''Pattern code too short'' \<in> set (errors r)"
    by blast
  from validate_pattern_valid_iff_no_errors [OF n3] h3
  have c3: "\<exists>r. validate_pattern ?p3 = Inr r
        \<and> valid r \<and> errors r = []
        \<and> warnings r = [''Pattern complexity 7 exceeds recommended max 5'']"
    by blast
  from c1 c2 c3 show ?thesis by blast
qed

section \<open>Serialisation stamps the metadata\<close>

lemma map_of_stamp:
  "map_of (stamp c u m) =
     (map_of m)(''created'' \<mapsto> PStr c, ''updated'' \<mapsto> PStr u, ''version'' \<mapsto> PStr ''1.0.0'')"
  by (simp add: stamp_def update_conv')

lemma stamp_keys:
  "fst ` set (stamp c u m) = fst ` set m \<union> {''created'', ''updated'', ''version''}"
  unfolding dom_map_of_conv_image_fst [symmetric] map_of_stamp by auto

text \<open>
  Claim C10, amended. When the pattern has a metadata dictionary, serialisation
  leaves the caller's pattern with that dictionary stamped: \<^verbatim>\<open>created\<close> and
  \<^verbatim>\<open>updated\<close> hold the two readings of the clock, \<^verbatim>\<open>version\<close> holds
  \<^verbatim>\<open>1.0.0\<close>, and every other key keeps its value. Nothing else of the pattern
  changes.
\<close>

theorem format_pattern_markdown_stamps_in_place:
  assumes "p_metadata p = Some m"
  shows "snd (format_pattern_markdown dump created_now updated_now p)
           = p\<lparr>p_metadata := Some (stamp created_now updated_now m)\<rparr>
     \<and> map_of (stamp created_now updated_now m) ''created'' = Some (PStr created_now)
     \<and> map_of (stamp created_now updated_now m) ''updated'' = Some (PStr updated_now)
     \<and> map_of (stamp created_now updated_now m) ''version'' = Some (PStr ''1.0.0'')
     \<and> (\<forall>k. k \<notin> {''created'', ''updated'', ''version''} \<longrightarrow>
            map_of (stamp created_now updated_now m) k = map_of m k)"
  using assms
  by (simp add: format_pattern_markdown_def Let_def map_of_stamp get_default_def)

theorem format_pattern_markdown_stamps_in_place_witness:
  "p_metadata (example_pattern (complete_metadata 2) homepage_code) = Some (complete_metadata 2)
   \<and> p_metadata (snd (format_pattern_markdown example_dump ''2026-01-01T12:00:00''
                        ''2026-01-01T12:00:01''
                        (example_pattern (complete_metadata 2) homepage_code)))
     = Some (complete_metadata 2 @
             [(''created'', PStr ''2026-01-01T12:00:00''),
              (''updated'', PStr ''2026-01-01T12:00:01''),
              (''version'', PStr ''1.0.0'')])"
proof -
  have h: "p_metadata (example_pattern (complete_metadata 2) homepage_code) = Some (complete_metadata 2)"
    by (simp add: example_pattern_def)
  have s: "stamp ''2026-01-01T12:00:00'' ''2026-01-01T12:00:01'' (complete_metadata 2)
     = complete_metadata 2 @
             [(''created'', PStr ''2026-01-01T12:00:00''),
              (''updated'', PStr ''2026-01-01T12:00:01''),
              (''version'', PStr ''1.0.0'')]"
    by (simp add: stamp_def complete_metadata_def)
  from format_pattern_markdown_stamps_in_place [OF h, of example_dump "''2026-01-01T12:00:00''"
      "''2026-01-01T12:00:01''"] h s
  show ?thesis by simp
qed


text \<open>
  Claim C10 as stated fails for a pattern without a \<^verbatim>\<open>metadata\<close> key: the stamps
  go into a fresh dictionary, and the caller's pattern has no metadata after the
  call either.
\<close>

theorem format_pattern_markdown_without_metadata:
  "snd (format_pattern_markdown example_dump ''2026-01-01T12:00:00'' ''2026-01-01T12:00:01''
          empty_pattern) = empty_pattern
   \<and> p_metadata empty_pattern = None"
  by (simp add: format_pattern_markdown_def Let_def empty_pattern_def)

section \<open>Agent Dispatch: what an invocation logs\<close>

lemma find_pattern_empty_store: "find_pattern safe_load (Some []) task = None"
  by (simp add: find_pattern_def)

lemma execute_body_cases:
  "execute_body create_pattern dump safe_load now domain task w =
     (if falsy (find_pattern safe_load (patterns w) task)
      then create_and_save create_pattern dump now domain task w
      else (Inr (generate_from_pattern (the (find_pattern safe_load (patterns w) task)) task),
            log_metrics now domain task True w))"
  by (auto simp: execute_body_def falsy_def split: option.splits)

lemma save_pattern_logs:
  "save_pattern dump now domain pattern task w = (r, p', w1) \<Longrightarrow>
     metrics_log w1 = metrics_log w \<and> errors_log w1 = errors_log w"
  by (auto simp: save_pattern_def Let_def split: prod.splits option.splits)

lemma create_and_save_logs:
  assumes "create_and_save create_pattern dump now domain task w = (r, w1)"
  shows "errors_log w1 = errors_log w
     \<and> (case r of
          Inl e \<Rightarrow> metrics_log w1 = metrics_log w
        | Inr code \<Rightarrow> (\<exists>m. metrics_log w1 = metrics_log w @ [m] \<and> m_task m = task
                          \<and> m_domain m = domain \<and> m_pattern_reused m))"
  using assms
  by (auto simp: create_and_save_def log_metrics_def split: sum.splits if_splits prod.splits
      dest!: save_pattern_logs)

lemma execute_body_logs:
  assumes "execute_body create_pattern dump safe_load now domain task w = (r, w1)"
  shows "errors_log w1 = errors_log w
     \<and> (case r of
          Inl e \<Rightarrow> metrics_log w1 = metrics_log w
        | Inr code \<Rightarrow> (\<exists>m. metrics_log w1 = metrics_log w @ [m] \<and> m_task m = task
                          \<and> m_domain m = domain \<and> m_pattern_reused m))"
proof (cases "falsy (find_pattern safe_load (patterns w) task)")
  case True
  with assms have "create_and_save create_pattern dump now domain task w = (r, w1)"
    by (simp add: execute_body_cases)
  then show ?thesis by (rule create_and_save_logs)
next
  case False
  with assms show ?thesis
    by (auto simp: execute_body_cases log_metrics_def)
qed

text \<open>
  Claim C6, amended. An invocation whose \<^verbatim>\<open>try\<close> block completes appends exactly
  one metrics record, for this task and domain, and leaves the error log as it was; an
  invocation whose block raises appends no metrics record and exactly one line to
  the error log, the timestamp followed by the message.
\<close>

theorem execute_logs:
  assumes "execute_body create_pattern dump safe_load now domain task w = (r, w1)"
    and "execute create_pattern dump safe_load now domain task w = (response, w2)"
  shows "case r of
           Inr code \<Rightarrow>
             response = code \<and> errors_log w2 = errors_log w
             \<and> (\<exists>m. metrics_log w2 = metrics_log w @ [m] \<and> m_task m = task \<and> m_domain m = domain)
         | Inl e \<Rightarrow>
             metrics_log w2 = metrics_log w
             \<and> errors_log w2 = errors_log w @
                 [now (ticks w1) @ '' - '' @ ''Error processing task '' @ quoted task @ '': ''
                  @ str_error e @ ''\<newline>'']"
  using assms execute_body_logs [OF assms(1)]
  by (auto simp: execute_def handle_error_def log_error_def Let_def split: sum.splits)

lemma falsy_empty_store: "falsy (find_pattern safe_load (patterns empty_world) task)"
  by (simp add: falsy_def find_pattern_def empty_world_def)

theorem execute_logs_witness:
  "fst (execute_body frontend_create_pattern example_dump example_safe_load example_now
          frontend_domain ''create homepage'' empty_world)
     = Inl (NotImplementedError (frontend_refusal ''create homepage''))
   \<and> metrics_log (snd (execute frontend_create_pattern example_dump example_safe_load example_now
                       frontend_domain ''create homepage'' empty_world)) = []
   \<and> errors_log (snd (execute frontend_create_pattern example_dump example_safe_load example_now
                       frontend_domain ''create homepage'' empty_world))
     = [''2026-01-01T12:00:00 - Error processing task '' @ quoted ''create homepage'' @ '': ''
        @ frontend_refusal ''create homepage'' @ ''\<newline>'']"
proof -
  let ?b = "execute_body frontend_create_pattern example_dump example_safe_load example_now
          frontend_domain ''create homepage'' empty_world"
  let ?e = "execute frontend_create_pattern example_dump example_safe_load example_now
          frontend_domain ''create homepage'' empty_world"
  have b: "?b = (Inl (NotImplementedError (frontend_refusal ''create homepage'')), empty_world)"
    by (simp add: execute_body_def find_pattern_def empty_world_def create_and_save_def
        frontend_create_pattern_def)
  have e: "?e = (fst ?e, snd ?e)"
    by simp
  have n: "example_now (ticks empty_world) = ''2026-01-01T12:00:00''"
    by (simp add: example_now_def empty_world_def digit_char_def)
  from execute_logs [OF b e]
  have "metrics_log (snd ?e) = metrics_log empty_world
     \<and> errors_log (snd ?e) = errors_log empty_world @
           [example_now (ticks empty_world) @ '' - '' @ ''Error processing task ''
            @ quoted ''create homepage'' @ '': ''
            @ str_error (NotImplementedError (frontend_refusal ''create homepage'')) @ ''\<newline>'']"
    by simp
  then have "metrics_log (snd ?e) = []
     \<and> errors_log (snd ?e) =
           [''2026-01-01T12:00:00'' @ '' - '' @ ''Error processing task ''
            @ quoted ''create homepage'' @ '': ''
            @ frontend_refusal ''create homepage'' @ ''\<newline>'']"
    unfolding n by (simp add: empty_world_def)
  with b show ?thesis by simp
qed

text \<open>
  Claim C6 as stated fails on the error path: the frontend agent on an empty store
  writes one line to the error log and no metrics record.
\<close>

theorem execute_counterexample:
  "metrics_log (snd (execute frontend_create_pattern example_dump example_safe_load example_now
                       frontend_domain ''create homepage'' empty_world)) = []
   \<and> length (errors_log (snd (execute frontend_create_pattern example_dump example_safe_load
                       example_now frontend_domain ''create homepage'' empty_world))) = 1"
  by (simp add: execute_def execute_body_def empty_world_def find_pattern_def
      create_and_save_def frontend_create_pattern_def handle_error_def log_error_def Let_def)

section \<open>Agent Dispatch: a miss of a concrete agent\<close>

lemma concrete_miss:
  assumes "falsy (find_pattern safe_load (patterns w) task)"
    and "create_pattern = frontend_create_pattern \<or> create_pattern = infrastructure_create_pattern"
  shows "\<exists>m. execute_body create_pattern dump safe_load now domain task w
           = (Inl (NotImplementedError m), w)"
  using assms
  by (auto simp: execute_body_cases create_and_save_def frontend_create_pattern_def
      infrastructure_create_pattern_def)

lemma sublist_handle_error:
  "sublist (''You can create the pattern manually in: '' @ patterns_dir domain)
     (fst (handle_error now domain e task w))"
proof -
  have "\<exists>ps ss. fst (handle_error now domain e task w)
          = ps @ (''You can create the pattern manually in: '' @ patterns_dir domain) @ ss"
    unfolding handle_error_def Let_def fst_conv
    by (metis append_assoc)
  then show ?thesis by (simp only: sublist_def)
qed

text \<open>
  Claim C9. When the matcher finds nothing for a task (no pattern, or the empty one),
  the \<^verbatim>\<open>try\<close> block of either concrete agent ends in the refusal of
  \<^verbatim>\<open>create_pattern\<close>; \<^verbatim>\<open>execute\<close> catches it and returns the formatted response
  of \<^verbatim>\<open>handle_error\<close>, which names the agent's pattern directory as the place to
  create the pattern by hand.
\<close>

theorem concrete_agent_miss_is_handled:
  assumes "falsy (find_pattern safe_load (patterns w) task)"
    and "(create_pattern, domain) = (frontend_create_pattern, frontend_domain)
          \<or> (create_pattern, domain) = (infrastructure_create_pattern, infrastructure_domain)"
  shows "\<exists>m. execute_body create_pattern dump safe_load now domain task w
                = (Inl (NotImplementedError m), w)
             \<and> execute create_pattern dump safe_load now domain task w
                = handle_error now domain (NotImplementedError m) task w
             \<and> sublist (''You can create the pattern manually in: '' @ patterns_dir domain)
                  (fst (execute create_pattern dump safe_load now domain task w))"
proof -
  from assms obtain m where m: "execute_body create_pattern dump safe_load now domain task w
           = (Inl (NotImplementedError m), w)"
    using concrete_miss [of safe_load w task create_pattern dump now domain] by auto
  then have e: "execute create_pattern dump safe_load now domain task w
                = handle_error now domain (NotImplementedError m) task w"
    by (simp add: execute_def)
  from m e sublist_handle_error show ?thesis by metis
qed

theorem concrete_agent_miss_is_handled_witness:
  "falsy (find_pattern example_safe_load (patterns empty_world) ''create homepage'')
   \<and> sublist ''You can create the pattern manually in: .ai/patterns/frontend''
       (fst (execute frontend_create_pattern example_dump example_safe_load example_now
               frontend_domain ''create homepage'' empty_world))"
proof -
  have f: "falsy (find_pattern example_safe_load (patterns empty_world) ''create homepage'')"
    by (rule falsy_empty_store)
  from concrete_agent_miss_is_handled [OF f, of frontend_create_pattern frontend_domain
      example_dump example_now] f
  show ?thesis
    by (auto simp: patterns_dir_def frontend_domain_def)
qed


section \<open>Pattern Matcher: properties\<close>

lemma loop_skip:
  "label_of c = None \<Longrightarrow>
     find_pattern_loop t bm bs (c # rest) = find_pattern_loop t bm bs rest"
  by (auto simp: label_of_def split: sum.splits)

lemma loop_exact:
  "pattern_task_of p = Inr t \<Longrightarrow> find_pattern_loop t bm bs (Inr p # rest) = Some p"
  by simp

lemma loop_step:
  "pattern_task_of p = Inr l \<Longrightarrow> l \<noteq> t \<Longrightarrow>
     find_pattern_loop t bm bs (Inr p # rest) =
       (if match_score t l > bs \<and> match_score t l > 3 / 10
        then find_pattern_loop t (Some p) (match_score t l) rest
        else find_pattern_loop t bm bs rest)"
  by (auto simp: Let_def)

lemma label_of_Inr: "label_of (Inr p) = Some l \<longleftrightarrow> pattern_task_of p = Inr l"
  by (auto simp: label_of_def split: sum.splits)

lemma loop_not_exact:
  "label_of c \<noteq> Some t \<Longrightarrow>
     \<exists>bm' bs'. find_pattern_loop t bm bs (c # rest) = find_pattern_loop t bm' bs' rest"
  by (cases c) (auto simp: label_of_def Let_def split: sum.splits)

text \<open>
  Claim C2, amended. The first candidate in enumeration order whose task label equals
  the lower-cased task is returned, whatever the best match and best score so far,
  whatever the candidates before it scored, and whatever candidates follow it.
\<close>

theorem find_pattern_loop_exact_match:
  assumes "\<forall>c\<in>set pre. label_of c \<noteq> Some (lower task)"
    and "pattern_task_of p = Inr (lower task)"
  shows "find_pattern_loop (lower task) best_match best_score (pre @ Inr p # post) = Some p"
  using assms(1)
proof (induction pre arbitrary: best_match best_score)
  case Nil
  from assms(2) show ?case by simp
next
  case (Cons c pre)
  then have "label_of c \<noteq> Some (lower task)" by simp
  then obtain bm' bs' where
    "find_pattern_loop (lower task) best_match best_score (c # pre @ Inr p # post)
       = find_pattern_loop (lower task) bm' bs' (pre @ Inr p # post)"
    using loop_not_exact by blast
  with Cons show ?case by simp
qed

lemma match_score_no_common:
  "set (split t) \<inter> set (split l) = {} \<Longrightarrow> match_score t l = 0"
  by (simp add: match_score_def)

lemma match_score_formula:
  "set (split t) \<union> set (split l) \<noteq> {} \<Longrightarrow>
   match_score t l =
     of_nat (card (set (split t) \<inter> set (split l)))
       / of_nat (max (card (set (split t))) (card (set (split l))))"
  by (simp add: match_score_def Let_def)

lemma loop_never_returns:
  assumes "pattern_task_of p = Inr l" and "l \<noteq> t" and "match_score t l \<le> 3 / 10"
    and "bm \<noteq> Some p"
  shows "find_pattern_loop t bm bs cs \<noteq> Some p"
  using assms(4)
proof (induction cs arbitrary: bm bs)
  case Nil
  then show ?case by simp
next
  case (Cons c cs)
  show ?case
  proof (cases c)
    case (Inl e)
    with Cons show ?thesis by simp
  next
    case (Inr q)
    show ?thesis
    proof (cases "pattern_task_of q")
      case (Inl e)
      with Inr Cons show ?thesis by simp
    next
      case lq: (Inr lq)
      show ?thesis
      proof (cases "lq = t")
        case True
        with lq assms(1,2) have "q \<noteq> p" by auto
        with True lq Inr show ?thesis by simp
      next
        case False
        show ?thesis
        proof (cases "match_score t lq > bs \<and> match_score t lq > 3 / 10")
          case True
          with assms(1,3) lq have "q \<noteq> p" by auto
          then have "Some q \<noteq> Some p" by simp
          from Cons.IH [OF this] True False lq Inr show ?thesis
            by (simp add: Let_def)
        next
          case nt: False
          with Cons False lq Inr show ?thesis
            by (auto simp: Let_def)
        qed
      qed
    qed
  qed
qed



lemma match_score_self: "match_score t t = 0 \<or> match_score t t = 1"
  by (auto simp: match_score_def Let_def)

lemma loop_below_threshold:
  assumes "\<forall>c\<in>set cs. \<forall>l. label_of c = Some l \<longrightarrow> l \<noteq> t \<and> match_score t l \<le> 3 / 10"
  shows "find_pattern_loop t bm bs cs = bm"
  using assms
proof (induction cs)
  case Nil
  then show ?case by simp
next
  case (Cons c cs)
  then have ih: "find_pattern_loop t bm bs cs = bm" by simp
  show ?case
  proof (cases "label_of c")
    case None
    with ih show ?thesis by (simp add: loop_skip del: find_pattern_loop.simps(2))
  next
    case (Some l)
    with Cons.prems have l: "l \<noteq> t" "match_score t l \<le> 3 / 10" by auto
    from Some obtain p where p: "c = Inr p" "pattern_task_of p = Inr l"
      by (cases c) (auto simp: label_of_def split: sum.splits)
    with l ih show ?thesis by (simp add: loop_step del: find_pattern_loop.simps(2))
  qed
qed

text \<open>
  Claim C3, amended. A pair with no common word scores 0; where one of the two has a
  word at all, the score is the number of common words over the larger of the two
  word counts; for a candidate whose label differs from the task this score is what
  the loop compares with the best score and with 3/10. A candidate with no common
  word whose label differs from the task is never returned.
\<close>

theorem find_pattern_loop_zero_overlap:
  "(set (split t) \<inter> set (split l) = {} \<longrightarrow> match_score t l = 0)
   \<and> (set (split t) \<union> set (split l) \<noteq> {} \<longrightarrow>
        match_score t l =
          of_nat (card (set (split t) \<inter> set (split l)))
            / of_nat (max (card (set (split t))) (card (set (split l)))))
   \<and> (pattern_task_of p = Inr l \<and> l \<noteq> t \<longrightarrow>
        find_pattern_loop t best_match best_score (Inr p # rest) =
          (if match_score t l > best_score \<and> match_score t l > 3 / 10
           then find_pattern_loop t (Some p) (match_score t l) rest
           else find_pattern_loop t best_match best_score rest))
   \<and> (pattern_task_of p = Inr l \<and> l \<noteq> t \<and> set (split t) \<inter> set (split l) = {} \<longrightarrow>
        find_pattern_loop t None 0 candidates \<noteq> Some p)"
proof -
  have d: "pattern_task_of p = Inr l \<and> l \<noteq> t \<and> set (split t) \<inter> set (split l) = {} \<longrightarrow>
        find_pattern_loop t None 0 candidates \<noteq> Some p"
  proof
    assume h: "pattern_task_of p = Inr l \<and> l \<noteq> t \<and> set (split t) \<inter> set (split l) = {}"
    then have "match_score t l \<le> 3 / 10" by (simp add: match_score_no_common)
    with h show "find_pattern_loop t None 0 candidates \<noteq> Some p"
      using loop_never_returns [of p l t None 0 candidates] by simp
  qed
  show ?thesis
    using d match_score_no_common [of t l] match_score_formula [of t l]
      loop_step [of p l t best_match best_score rest]
    by blast
qed

text \<open>
  Claim C4, amended. A candidate whose label differs from the task replaces the best
  match exactly when its score is strictly above the best score and strictly above
  3/10. Candidates scoring 1/4, 7/20 and 1/2 in this order give the third; two
  candidates whose labels differ from the task and that are tied at a score above
  3/10 give the first; when no candidate's label equals the task and none scores
  above 3/10, the result is none.
\<close>

theorem find_pattern_loop_threshold:
  "(pattern_task_of p = Inr l \<and> l \<noteq> t \<longrightarrow>
        find_pattern_loop t best_match best_score (Inr p # rest) =
          (if match_score t l > best_score \<and> match_score t l > 3 / 10
           then find_pattern_loop t (Some p) (match_score t l) rest
           else find_pattern_loop t best_match best_score rest))
   \<and> (pattern_task_of p1 = Inr l1 \<and> pattern_task_of p2 = Inr l2 \<and> pattern_task_of p3 = Inr l3
        \<and> match_score t l1 = 1 / 4 \<and> match_score t l2 = 7 / 20 \<and> match_score t l3 = 1 / 2 \<longrightarrow>
        find_pattern_loop t None 0 [Inr p1, Inr p2, Inr p3] = Some p3)
   \<and> (pattern_task_of p1 = Inr l1 \<and> pattern_task_of p2 = Inr l2 \<and> l1 \<noteq> t \<and> l2 \<noteq> t
        \<and> match_score t l1 = match_score t l2 \<and> match_score t l1 > 3 / 10 \<longrightarrow>
        find_pattern_loop t None 0 [Inr p1, Inr p2] = Some p1)
   \<and> ((\<forall>c\<in>set candidates. \<forall>l. label_of c = Some l \<longrightarrow> l \<noteq> t \<and> match_score t l \<le> 3 / 10) \<longrightarrow>
        find_pattern_loop t None 0 candidates = None)"
proof -
  have a: "pattern_task_of p = Inr l \<and> l \<noteq> t \<longrightarrow>
        find_pattern_loop t best_match best_score (Inr p # rest) =
          (if match_score t l > best_score \<and> match_score t l > 3 / 10
           then find_pattern_loop t (Some p) (match_score t l) rest
           else find_pattern_loop t best_match best_score rest)"
    using loop_step by blast
  have b: "pattern_task_of p1 = Inr l1 \<and> pattern_task_of p2 = Inr l2 \<and> pattern_task_of p3 = Inr l3
        \<and> match_score t l1 = 1 / 4 \<and> match_score t l2 = 7 / 20 \<and> match_score t l3 = 1 / 2 \<longrightarrow>
        find_pattern_loop t None 0 [Inr p1, Inr p2, Inr p3] = Some p3"
  proof
    assume h: "pattern_task_of p1 = Inr l1 \<and> pattern_task_of p2 = Inr l2 \<and> pattern_task_of p3 = Inr l3
        \<and> match_score t l1 = 1 / 4 \<and> match_score t l2 = 7 / 20 \<and> match_score t l3 = 1 / 2"
    have n1: "l1 \<noteq> t" using h match_score_self [of t] by auto
    have n2: "l2 \<noteq> t" using h match_score_self [of t] by auto
    have n3: "l3 \<noteq> t" using h match_score_self [of t] by auto
    from h n1 n2 n3 show "find_pattern_loop t None 0 [Inr p1, Inr p2, Inr p3] = Some p3"
      by (simp add: loop_step del: find_pattern_loop.simps(2))
  qed
  have c: "pattern_task_of p1 = Inr l1 \<and> pattern_task_of p2 = Inr l2 \<and> l1 \<noteq> t \<and> l2 \<noteq> t
        \<and> match_score t l1 = match_score t l2 \<and> match_score t l1 > 3 / 10 \<longrightarrow>
        find_pattern_loop t None 0 [Inr p1, Inr p2] = Some p1"
    by (simp add: loop_step del: find_pattern_loop.simps(2))
  have d: "(\<forall>c\<in>set candidates. \<forall>l. label_of c = Some l \<longrightarrow> l \<noteq> t \<and> match_score t l \<le> 3 / 10) \<longrightarrow>
        find_pattern_loop t None 0 candidates = None"
    using loop_below_threshold by blast
  from a b c d show ?thesis by blast
qed

lemma label_of_labelled:
  "label_of (Inr (labelled_pattern l c)) = Some (lower l)"
  by (simp add: label_of_def pattern_task_of_def labelled_pattern_def example_pattern_def
      get_default_def)

lemma pattern_task_of_labelled:
  "pattern_task_of (labelled_pattern l c) = Inr (lower l)"
  by (simp add: pattern_task_of_def labelled_pattern_def example_pattern_def get_default_def)

lemma lower_examples:
  "lower ''Create Homepage'' = ''create homepage''"
  "lower ''CREATE homepage'' = ''create homepage''"
  "lower ''create homepage'' = ''create homepage''"
  "lower ''setup nextjs project'' = ''setup nextjs project''"
  "lower ''create page'' = ''create page''"
  "lower ''homepage hero'' = ''homepage hero''"
  "lower ''a b c d e'' = ''a b c d e''"
  "lower ''a b c d e f g'' = ''a b c d e f g''"
  "lower ''a b c d e f g h i j'' = ''a b c d e f g h i j''"
  "lower ''a x'' = ''a x''"
  "lower ''a y'' = ''a y''"
  "lower [] = []"
  by (simp_all add: lower_def lower_char_def upper_chars_def)

theorem find_pattern_loop_exact_match_witness:
  "label_of (Inr (labelled_pattern ''setup nextjs project'' short_code))
        \<noteq> Some (lower ''Create Homepage'')
   \<and> label_of (Inl (YAMLError ''could not read the document'')) \<noteq> Some (lower ''Create Homepage'')
   \<and> pattern_task_of (labelled_pattern ''CREATE homepage'' homepage_code)
        = Inr (lower ''Create Homepage'')
   \<and> find_pattern_loop (lower ''Create Homepage'') None 0
        ([Inr (labelled_pattern ''setup nextjs project'' short_code),
          Inl (YAMLError ''could not read the document'')]
         @ Inr (labelled_pattern ''CREATE homepage'' homepage_code)
         # [Inr (labelled_pattern ''create homepage'' short_code)])
       = Some (labelled_pattern ''CREATE homepage'' homepage_code)"
proof -
  have a: "\<forall>c\<in>set [Inr (labelled_pattern ''setup nextjs project'' short_code),
               Inl (YAMLError ''could not read the document'')].
        label_of c \<noteq> Some (lower ''Create Homepage'')"
    by (simp add: label_of_labelled lower_examples) (simp add: label_of_def)
  have b: "pattern_task_of (labelled_pattern ''CREATE homepage'' homepage_code)
        = Inr (lower ''Create Homepage'')"
    by (simp add: pattern_task_of_labelled lower_examples)
  from a have a': "label_of (Inr (labelled_pattern ''setup nextjs project'' short_code))
        \<noteq> Some (lower ''Create Homepage'')
   \<and> label_of (Inl (YAMLError ''could not read the document'')) \<noteq> Some (lower ''Create Homepage'')"
    by simp
  from find_pattern_loop_exact_match [OF a b] a' b show ?thesis by blast
qed

text \<open>
  Claim C2 as stated fails when two candidates carry the label: the second one has a
  label equal to the task, and the first one is returned.
\<close>

theorem find_pattern_loop_second_exact_match:
  "label_of (Inr (labelled_pattern ''Create Homepage'' short_code)) = Some (lower ''create homepage'')
   \<and> find_pattern_loop (lower ''create homepage'') None 0
        [Inr (labelled_pattern ''create homepage'' homepage_code),
         Inr (labelled_pattern ''Create Homepage'' short_code)]
       = Some (labelled_pattern ''create homepage'' homepage_code)
   \<and> labelled_pattern ''create homepage'' homepage_code
       \<noteq> labelled_pattern ''Create Homepage'' short_code"
  by (simp add: label_of_labelled pattern_task_of_labelled lower_examples)
     (simp add: labelled_pattern_def example_pattern_def)

lemma split_examples:
  "split ''create homepage'' = [''create'', ''homepage'']"
  "split ''setup nextjs project'' = [''setup'', ''nextjs'', ''project'']"
  "split [] = []"
  by (simp_all add: split_def is_space_def space_chars_def)

theorem find_pattern_loop_zero_overlap_witness:
  "set (split ''create homepage'') \<inter> set (split ''setup nextjs project'') = {}
   \<and> set (split ''create homepage'') \<union> set (split ''setup nextjs project'') \<noteq> {}
   \<and> pattern_task_of (labelled_pattern ''setup nextjs project'' homepage_code)
        = Inr ''setup nextjs project''
   \<and> ''setup nextjs project'' \<noteq> ''create homepage''
   \<and> match_score ''create homepage'' ''setup nextjs project'' = 0
   \<and> find_pattern_loop ''create homepage'' None 0
        [Inr (labelled_pattern ''setup nextjs project'' homepage_code),
         Inr (labelled_pattern ''create page'' short_code)]
       \<noteq> Some (labelled_pattern ''setup nextjs project'' homepage_code)"
proof -
  have a: "set (split ''create homepage'') \<inter> set (split ''setup nextjs project'') = {}"
    by (simp add: split_examples)
  have b: "set (split ''create homepage'') \<union> set (split ''setup nextjs project'') \<noteq> {}"
    by (simp add: split_examples)
  have c: "pattern_task_of (labelled_pattern ''setup nextjs project'' homepage_code)
        = Inr ''setup nextjs project''"
    by (simp add: pattern_task_of_labelled lower_examples)
  have d: "''setup nextjs project'' \<noteq> ''create homepage''"
    by simp
  note t = find_pattern_loop_zero_overlap [of "''create homepage''" "''setup nextjs project''"
      "labelled_pattern ''setup nextjs project'' homepage_code" None 0 "[]"
      "[Inr (labelled_pattern ''setup nextjs project'' homepage_code),
         Inr (labelled_pattern ''create page'' short_code)]"]
  from t a have e: "match_score ''create homepage'' ''setup nextjs project'' = 0"
    by blast
  from t a c d have f: "find_pattern_loop ''create homepage'' None 0
        [Inr (labelled_pattern ''setup nextjs project'' homepage_code),
         Inr (labelled_pattern ''create page'' short_code)]
       \<noteq> Some (labelled_pattern ''setup nextjs project'' homepage_code)"
    by blast
  from a b c d e f show ?thesis by blast
qed

text \<open>
  Claim C3 as stated fails for the empty task and a candidate with the empty label:
  the two have no common word, the score is 0, and the candidate is returned as an
  exact match.
\<close>

theorem find_pattern_loop_empty_task:
  "set (split (lower [])) \<inter> set (split (lower [])) = {}
   \<and> match_score (lower []) (lower []) = 0
   \<and> pattern_task_of (labelled_pattern [] homepage_code) = Inr (lower [])
   \<and> find_pattern_loop (lower []) None 0 [Inr (labelled_pattern [] homepage_code)]
       = Some (labelled_pattern [] homepage_code)"
  by (simp add: pattern_task_of_labelled lower_examples split_examples match_score_def)

lemma score_examples:
  "match_score twenty_words ''a b c d e'' = 1 / 4"
  "match_score twenty_words ''a b c d e f g'' = 7 / 20"
  "match_score twenty_words ''a b c d e f g h i j'' = 1 / 2"
  "match_score ''create homepage'' ''create page'' = 1 / 2"
  "match_score ''create homepage'' ''homepage hero'' = 1 / 2"
  "match_score ''create homepage'' ''setup nextjs project'' = 0"
  "match_score ''a b c d'' ''a x'' = 1 / 4"
  "match_score ''a b c d'' ''a y'' = 1 / 4"
  by code_simp+

theorem find_pattern_loop_threshold_witness:
  "find_pattern_loop twenty_words None 0
     [Inr (labelled_pattern ''a b c d e'' homepage_code),
      Inr (labelled_pattern ''a b c d e f g'' homepage_code),
      Inr (labelled_pattern ''a b c d e f g h i j'' homepage_code)]
     = Some (labelled_pattern ''a b c d e f g h i j'' homepage_code)
   \<and> match_score ''create homepage'' ''create page'' = match_score ''create homepage'' ''homepage hero''
   \<and> match_score ''create homepage'' ''create page'' > 3 / 10
   \<and> find_pattern_loop ''create homepage'' None 0
        [Inr (labelled_pattern ''create page'' homepage_code),
         Inr (labelled_pattern ''homepage hero'' short_code)]
       = Some (labelled_pattern ''create page'' homepage_code)
   \<and> label_of (Inr (labelled_pattern ''setup nextjs project'' homepage_code))
        = Some ''setup nextjs project''
   \<and> ''setup nextjs project'' \<noteq> ''create homepage''
   \<and> match_score ''create homepage'' ''setup nextjs project'' \<le> 3 / 10
   \<and> find_pattern_loop ''create homepage'' None 0
        [Inr (labelled_pattern ''setup nextjs project'' homepage_code)] = None"
proof -
  have b: "pattern_task_of (labelled_pattern ''a b c d e'' homepage_code) = Inr ''a b c d e''
      \<and> pattern_task_of (labelled_pattern ''a b c d e f g'' homepage_code) = Inr ''a b c d e f g''
      \<and> pattern_task_of (labelled_pattern ''a b c d e f g h i j'' homepage_code)
           = Inr ''a b c d e f g h i j''
      \<and> match_score twenty_words ''a b c d e'' = 1 / 4
      \<and> match_score twenty_words ''a b c d e f g'' = 7 / 20
      \<and> match_score twenty_words ''a b c d e f g h i j'' = 1 / 2"
    by (simp add: pattern_task_of_labelled lower_examples score_examples)
  have r1: "find_pattern_loop twenty_words None 0
     [Inr (labelled_pattern ''a b c d e'' homepage_code),
      Inr (labelled_pattern ''a b c d e f g'' homepage_code),
      Inr (labelled_pattern ''a b c d e f g h i j'' homepage_code)]
     = Some (labelled_pattern ''a b c d e f g h i j'' homepage_code)"
    by (rule find_pattern_loop_threshold
          [where t = twenty_words, THEN conjunct2, THEN conjunct1, THEN mp, OF b])
  have c: "pattern_task_of (labelled_pattern ''create page'' homepage_code) = Inr ''create page''
      \<and> pattern_task_of (labelled_pattern ''homepage hero'' short_code) = Inr ''homepage hero''
      \<and> ''create page'' \<noteq> ''create homepage'' \<and> ''homepage hero'' \<noteq> ''create homepage''
      \<and> match_score ''create homepage'' ''create page'' = match_score ''create homepage'' ''homepage hero''
      \<and> match_score ''create homepage'' ''create page'' > 3 / 10"
    by (simp add: pattern_task_of_labelled lower_examples score_examples)
  have r2: "find_pattern_loop ''create homepage'' None 0
        [Inr (labelled_pattern ''create page'' homepage_code),
         Inr (labelled_pattern ''homepage hero'' short_code)]
       = Some (labelled_pattern ''create page'' homepage_code)"
    by (rule find_pattern_loop_threshold
          [where t = "''create homepage''", THEN conjunct2, THEN conjunct2, THEN conjunct1,
           THEN mp, OF c])
  have d: "\<forall>c\<in>set [Inr (labelled_pattern ''setup nextjs project'' homepage_code)].
         \<forall>l. label_of c = Some l \<longrightarrow>
           l \<noteq> ''create homepage'' \<and> match_score ''create homepage'' l \<le> 3 / 10"
    by (simp add: label_of_labelled lower_examples score_examples)
  have r3: "find_pattern_loop ''create homepage'' None 0
        [Inr (labelled_pattern ''setup nextjs project'' homepage_code)] = None"
    by (rule find_pattern_loop_threshold
          [where t = "''create homepage''", THEN conjunct2, THEN conjunct2, THEN conjunct2,
           THEN mp, OF d])
  have e: "label_of (Inr (labelled_pattern ''setup nextjs project'' homepage_code))
        = Some ''setup nextjs project''
   \<and> ''setup nextjs project'' \<noteq> ''create homepage''
   \<and> match_score ''create homepage'' ''setup nextjs project'' \<le> 3 / 10"
    by (simp add: label_of_labelled lower_examples score_examples)
  from c have c': "match_score ''create homepage'' ''create page'' = match_score ''create homepage'' ''homepage hero''
   \<and> match_score ''create homepage'' ''create page'' > 3 / 10"
    by (elim conjE) (intro conjI)
  show ?thesis
    by (intro conjI r1 r2 r3 c' [THEN conjunct1] c' [THEN conjunct2]
        e [THEN conjunct1] e [THEN conjunct2, THEN conjunct1] e [THEN conjunct2, THEN conjunct2])
qed

text \<open>
  Claim C4 as stated fails in two places. For the empty task, a file without
  frontmatter parses to the empty pattern, whose label is empty too: no candidate
  scores above the threshold, and the result is that candidate, not none. And two
  candidates tied at the top score 1/4 give none, not the earlier one.
\<close>

theorem find_pattern_below_threshold_counterexample:
  "label_of (Inr empty_pattern) = Some (lower [])
   \<and> \<not> match_score (lower []) (lower []) > 3 / 10
   \<and> find_pattern example_safe_load (Some [(''notes.md'', Inr ''# just notes'')]) []
       = Some empty_pattern
   \<and> match_score ''a b c d'' ''a x'' = match_score ''a b c d'' ''a y''
   \<and> find_pattern_loop ''a b c d'' None 0
        [Inr (labelled_pattern ''a x'' homepage_code), Inr (labelled_pattern ''a y'' short_code)]
       = None"
proof -
  have a: "label_of (Inr empty_pattern) = Some (lower [])"
    by (simp add: label_of_def pattern_task_of_def empty_pattern_def get_default_def lower_examples)
  have b: "\<not> match_score (lower []) (lower []) > 3 / 10"
    by (simp add: lower_examples match_score_def split_examples)
  have p: "parse_pattern_file example_safe_load (Inr ''# just notes'') = Inr empty_pattern"
    by (simp add: parse_pattern_file_def match_frontmatter_def)
  have c: "find_pattern example_safe_load (Some [(''notes.md'', Inr ''# just notes'')]) []
       = Some empty_pattern"
    using a by (simp add: find_pattern_def p label_of_def lower_examples split: sum.splits)
  have d: "find_pattern_loop ''a b c d'' None 0
        [Inr (labelled_pattern ''a x'' homepage_code), Inr (labelled_pattern ''a y'' short_code)]
       = None"
    by (simp add: loop_step pattern_task_of_labelled lower_examples score_examples
        del: find_pattern_loop.simps(2))
  from a b c d show ?thesis by (simp add: score_examples)
qed


section \<open>Pattern Codec: parsing a serialised pattern\<close>

lemma prefix_append_short:
  "prefix M (xs @ ys) \<Longrightarrow> length M \<le> length xs \<Longrightarrow> prefix M xs"
  by (metis prefix_length_prefix prefixI append_prefixD prefix_order.order_refl)

lemma find_idx_after:
  assumes "M \<noteq> []" and "\<not> sublist M (f @ butlast M)"
  shows "find_idx M (f @ M @ rest) = Some (length f)"
  using assms(2)
proof (induction f)
  case Nil
  from assms(1) obtain x xs where "M = x # xs" by (cases M) auto
  then show ?case by simp
next
  case (Cons a f)
  have np: "\<not> prefix M (a # f @ M @ rest)"
  proof
    assume "prefix M (a # f @ M @ rest)"
    then have "prefix M ((a # f @ butlast M) @ [last M] @ rest)"
      using assms(1) by (metis append.assoc append_Cons append_butlast_last_id)
    moreover have "length M \<le> length (a # f @ butlast M)"
      using assms(1) by simp
    ultimately have "prefix M (a # f @ butlast M)"
      by (rule prefix_append_short)
    with Cons.prems show False
      by (metis prefix_imp_sublist append_Cons)
  qed
  from Cons.prems have "\<not> sublist M (f @ butlast M)"
    by (simp add: sublist_Cons_right)
  with Cons.IH np show ?case by simp
qed

lemma no_prefix_in_field:
  assumes "\<not> sublist M (a # f)" and "c \<notin> set M"
  shows "\<not> prefix M (a # f @ c # rest)"
proof
  assume "prefix M (a # f @ c # rest)"
  then have "prefix M ((a # f) @ c # rest)" by simp
  then consider "prefix M (a # f)" | us where "M = (a # f) @ us" "prefix us (c # rest)"
    unfolding prefix_append by blast
  then show False
  proof cases
    case 1
    with assms(1) show False by (metis prefix_imp_sublist)
  next
    case 2
    show False
    proof (cases us)
      case Nil
      with 2 assms(1) show False by simp
    next
      case (Cons u us')
      with 2 have "u = c" by simp
      with Cons 2 assms(2) show False by simp
    qed
  qed
qed

lemma find_idx_skip:
  assumes "\<not> sublist M f" and "c \<notin> set M"
  shows "find_idx M (f @ c # rest) = map_option (\<lambda>i. i + length f) (find_idx M (c # rest))"
  using assms(1)
proof (induction f)
  case Nil
  show ?case by (simp add: option.map_ident)
next
  case (Cons a f)
  from Cons.prems assms(2) have np: "\<not> prefix M (a # f @ c # rest)"
    by (rule no_prefix_in_field)
  from Cons.prems have "\<not> sublist M f" by (simp add: sublist_Cons_right)
  with Cons.IH np show ?case
    by (simp add: option.map_comp comp_def)
qed

lemma find_idx_here:
  assumes "M = a # M'" and "a \<notin> set M'" and "\<not> sublist M f"
  shows "find_idx M (f @ M @ rest) = Some (length f)"
  using assms(3)
proof (induction f)
  case Nil
  with assms(1) show ?case by simp
next
  case (Cons b f)
  have np: "\<not> prefix M (b # f @ M @ rest)"
  proof
    assume "prefix M (b # f @ M @ rest)"
    then have "prefix M ((b # f) @ M @ rest)" by simp
    then consider "prefix M (b # f)" | us where "M = (b # f) @ us" "prefix us (M @ rest)"
      unfolding prefix_append by blast
    then show False
    proof cases
      case 1
      with Cons.prems show False by (metis prefix_imp_sublist)
    next
      case 2
      show False
      proof (cases us)
        case Nil
        with 2 Cons.prems show False by simp
      next
        case (Cons u us')
        with 2 assms(1) have "u = a" by simp
        with Cons 2 assms(1) have "a \<in> set M'" by auto
        with assms(2) show False by simp
      qed
    qed
  qed
  from Cons.prems have "\<not> sublist M f" by (simp add: sublist_Cons_right)
  with Cons.IH np show ?case by simp
qed


lemma lstrip_spaces: "\<forall>c\<in>set w. is_space c \<Longrightarrow> lstrip (w @ x) = lstrip x"
  by (simp add: lstrip_def dropWhile_append)

lemma rstrip_spaces: "\<forall>c\<in>set w. is_space c \<Longrightarrow> rstrip (x @ w) = rstrip x"
  by (simp add: rstrip_def dropWhile_append)

lemma rstrip_Nil: "rstrip [] = []"
  by (simp add: rstrip_def)

lemma strip_append_spaces:
  assumes "\<forall>c\<in>set w. is_space c"
  shows "strip (x @ w) = strip x"
proof (cases "\<forall>c\<in>set x. is_space c")
  case True
  with assms have "lstrip (x @ w) = []" and "lstrip x = []"
    by (simp_all add: lstrip_def)
  then show ?thesis by (simp add: strip_def)
next
  case False
  then have "lstrip (x @ w) = lstrip x @ w"
    by (auto simp: lstrip_def dropWhile_append)
  with assms show ?thesis
    by (simp add: strip_def rstrip_spaces)
qed

lemma strip_between_spaces:
  assumes "\<forall>c\<in>set w1. is_space c" and "\<forall>c\<in>set w2. is_space c"
  shows "strip (w1 @ x @ w2) = strip x"
proof -
  have "strip (w1 @ x @ w2) = strip (w1 @ x)"
    using strip_append_spaces [OF assms(2), of "w1 @ x"] by simp
  also have "\<dots> = strip x"
    by (simp add: strip_def lstrip_spaces [OF assms(1)])
  finally show ?thesis .
qed

lemma rstrip_prefix: "\<exists>t. y = rstrip y @ t"
proof -
  have "rev y = takeWhile is_space (rev y) @ dropWhile is_space (rev y)" by simp
  then have "y = rev (dropWhile is_space (rev y)) @ rev (takeWhile is_space (rev y))"
    by (metis rev_append rev_rev_ident)
  then show ?thesis by (auto simp: rstrip_def)
qed

lemma lstrip_rstrip_lstrip: "lstrip (rstrip (lstrip x)) = rstrip (lstrip x)"
proof (cases "rstrip (lstrip x)")
  case Nil
  then show ?thesis by (simp add: lstrip_def)
next
  case (Cons a z)
  obtain t where t: "lstrip x = rstrip (lstrip x) @ t" using rstrip_prefix by blast
  with Cons have "lstrip x = a # z @ t" by simp
  then have "\<not> is_space a"
    unfolding lstrip_def by (metis dropWhile_eq_Cons_conv)
  with Cons show ?thesis by (simp add: lstrip_def)
qed

lemma rstrip_rstrip: "rstrip (rstrip y) = rstrip y"
  by (simp add: rstrip_def)

lemma strip_strip: "strip (strip x) = strip x"
  by (simp add: strip_def lstrip_rstrip_lstrip rstrip_rstrip)

lemma extract_section_between:
  assumes "find_idx S (A @ S @ X @ E @ B) = Some (length A)"
    and "find_idx E (X @ E @ B) = Some (length X)"
    and "E \<noteq> []"
  shows "extract_section (A @ S @ X @ E @ B) S (Some E) = strip X"
  using assms
  by (simp add: extract_section_def Let_def find_from_def slice_def add.commute)


lemma match_fence_other: "a \<noteq> CHR ''`'' \<Longrightarrow> match_fence (a # xs) = None"
  by (simp add: match_fence_def)

lemma search_code_skip:
  assumes "\<not> sublist ''```'' f" and "c \<noteq> CHR ''`''"
  shows "search_code (f @ c # rest) = search_code (c # rest)"
  using assms(1)
proof (induction f)
  case Nil
  show ?case by simp
next
  case (Cons a f)
  from assms(2) have "c \<notin> set ''```''" by simp
  with Cons.prems have np: "\<not> prefix ''```'' (a # f @ c # rest)"
    by (rule no_prefix_in_field)
  from Cons.prems have "\<not> sublist ''```'' f" by (simp add: sublist_Cons_right)
  with Cons.IH have ih: "search_code (f @ c # rest) = search_code (c # rest)" .
  have "match_fence (a # f @ c # rest) = None"
    using np unfolding match_fence_def by (simp only: if_False)
  then show ?case
    using ih by (simp only: append_Cons search_code.simps option.case)
qed

lemma dropWhile_word_tag:
  "\<forall>ch\<in>set L. is_word ch \<Longrightarrow> dropWhile is_word (L @ CHR ''\<newline>'' # xs) = CHR ''\<newline>'' # xs"
  by (simp add: dropWhile_append is_word_def word_chars_def)

lemma match_fence_here:
  assumes "\<forall>ch\<in>set L. is_word ch" and "\<not> sublist ''\<newline>```'' c"
  shows "match_fence (CHR ''`'' # CHR ''`'' # CHR ''`'' # L @ CHR ''\<newline>'' # c
                      @ CHR ''\<newline>'' # CHR ''`'' # CHR ''`'' # CHR ''`'' # rest) = Some c"
proof -
  have "find_idx ''\<newline>```'' (c @ ''\<newline>```'' @ rest) = Some (length c)"
    by (rule find_idx_here [where a = "CHR ''\<newline>''" and M' = "''```''"]) (use assms(2) in simp_all)
  then show ?thesis
    using dropWhile_word_tag [OF assms(1)]
    by (simp add: match_fence_def)
qed

lemma body_code:
  assumes "\<not> sublist ''```'' T" "\<not> sublist ''```'' D" "\<not> sublist ''```'' s"
    "\<not> sublist ''```'' u" "\<not> sublist ''```'' N"
    "\<forall>ch\<in>set L. is_word ch" "\<not> sublist ''\<newline>```'' c"
  shows "search_code (body_text T D s u N L c) = Some c"
  using assms
  by (simp add: body_text_def search_code_skip match_fence_other match_fence_here)


lemma body_setup:
  assumes "\<not> sublist ''## Setup Instructions'' T" "\<not> sublist ''## Setup Instructions'' D"
    "\<not> sublist ''## Usage'' s"
  shows "extract_section (body_text T D s u N L c) ''## Setup Instructions'' (Some ''## Usage'')
           = strip s"
proof -
  let ?A = "''\<newline># '' @ T @ ''\<newline>\<newline>## Description\<newline>\<newline>'' @ D @ ''\<newline>\<newline>''"
  let ?X = "''\<newline>\<newline>'' @ s @ ''\<newline>\<newline>''"
  let ?B = "''\<newline>\<newline>'' @ u @ ''\<newline>\<newline>## Notes\<newline>\<newline>'' @ N
     @ ''\<newline>\<newline>## Code\<newline>\<newline>```'' @ L @ ''\<newline>'' @ c @ ''\<newline>```\<newline>''"
  have b: "body_text T D s u N L c = ?A @ ''## Setup Instructions'' @ ?X @ ''## Usage'' @ ?B"
    by (simp add: body_text_def)
  have f1: "find_idx ''## Setup Instructions'' (?A @ ''## Setup Instructions'' @ ?X @ ''## Usage'' @ ?B)
              = Some (length ?A)"
    using assms(1,2) by (simp add: find_idx_skip)
  have f2: "find_idx ''## Usage'' (?X @ ''## Usage'' @ ?B) = Some (length ?X)"
    using assms(3) by (simp add: find_idx_skip)
  have "extract_section (?A @ ''## Setup Instructions'' @ ?X @ ''## Usage'' @ ?B)
          ''## Setup Instructions'' (Some ''## Usage'') = strip ?X"
    by (rule extract_section_between [OF f1 f2]) simp
  also have "strip ?X = strip s"
    by (rule strip_between_spaces) (simp_all add: is_space_def space_chars_def)
  finally show ?thesis by (simp only: b)
qed

lemma body_usage:
  assumes "\<not> sublist ''## Usage'' T" "\<not> sublist ''## Usage'' D" "\<not> sublist ''## Usage'' s"
    "\<not> sublist ''## Notes'' u"
  shows "extract_section (body_text T D s u N L c) ''## Usage'' (Some ''## Notes'') = strip u"
proof -
  let ?A = "''\<newline># '' @ T @ ''\<newline>\<newline>## Description\<newline>\<newline>'' @ D
     @ ''\<newline>\<newline>## Setup Instructions\<newline>\<newline>'' @ s @ ''\<newline>\<newline>''"
  let ?X = "''\<newline>\<newline>'' @ u @ ''\<newline>\<newline>''"
  let ?B = "''\<newline>\<newline>'' @ N
     @ ''\<newline>\<newline>## Code\<newline>\<newline>```'' @ L @ ''\<newline>'' @ c @ ''\<newline>```\<newline>''"
  have b: "body_text T D s u N L c = ?A @ ''## Usage'' @ ?X @ ''## Notes'' @ ?B"
    by (simp add: body_text_def)
  have f1: "find_idx ''## Usage'' (?A @ ''## Usage'' @ ?X @ ''## Notes'' @ ?B) = Some (length ?A)"
    using assms(1,2,3) by (simp add: find_idx_skip)
  have f2: "find_idx ''## Notes'' (?X @ ''## Notes'' @ ?B) = Some (length ?X)"
    using assms(4) by (simp add: find_idx_skip)
  have "extract_section (?A @ ''## Usage'' @ ?X @ ''## Notes'' @ ?B)
          ''## Usage'' (Some ''## Notes'') = strip ?X"
    by (rule extract_section_between [OF f1 f2]) simp
  also have "strip ?X = strip u"
    by (rule strip_between_spaces) (simp_all add: is_space_def space_chars_def)
  finally show ?thesis by (simp only: b)
qed

lemma match_frontmatter_document:
  assumes "\<not> sublist ''\<newline>---\<newline>'' (fm @ ''\<newline>---'')"
  shows "match_frontmatter (''---\<newline>'' @ fm @ ''\<newline>---\<newline>'' @ body) = Some (fm, body)"
proof -
  have "find_idx ''\<newline>---\<newline>'' (fm @ ''\<newline>---\<newline>'' @ body) = Some (length fm)"
    by (rule find_idx_after) (use assms in simp_all)
  then show ?thesis
    by (simp add: match_frontmatter_def)
qed


lemma format_document:
  assumes "p_metadata p = Some m" "p_setup p = Some s" "p_usage p = Some u" "p_code p = Some c"
    and "dump (stamp cn un m) = fm @ ''\<newline>''"
  shows "fst (format_pattern_markdown dump cn un p) =
           ''---\<newline>'' @ fm @ ''\<newline>---\<newline>''
           @ body_text (title_of p) (description_of p) s u (notes_of p) (language_of p) c"
  using assms
  by (simp add: format_pattern_markdown_def Let_def body_text_def title_of_def description_of_def
      notes_of_def language_of_def metadata_of_def get_default_def map_of_stamp)

text \<open>
  What does survive serialising and parsing. Let the pattern have metadata, setup,
  usage and code; let the dump of the stamped metadata end with a newline, hold no
  \<^verbatim>\<open>---\<close> line before the closing one, and load back to a dictionary with the
  same entries; let the title and the sections hold none of the markers that delimit a
  section read after them and no code fence, the language tag consist of word
  characters, and the code hold no line that starts with a fence. Then parsing the
  serialised pattern gives a record with the same code, the setup and the usage with
  surrounding whitespace trimmed, and metadata in which every key other than
  \<^verbatim>\<open>created\<close>, \<^verbatim>\<open>updated\<close> and \<^verbatim>\<open>version\<close> has its original value.
\<close>

theorem parse_format_roundtrip:
  assumes fields: "p_metadata p = Some m" "p_setup p = Some s" "p_usage p = Some u"
      "p_code p = Some c"
    and dumped: "dump (stamp cn un m) = fm @ ''\<newline>''"
      "\<not> sublist ''\<newline>---\<newline>'' (fm @ ''\<newline>---'')"
    and loaded: "safe_load fm = Inr (PDict m2)" "map_of m2 = map_of (stamp cn un m)"
    and markers:
      "free_of ''## Setup Instructions'' [title_of p, description_of p]"
      "free_of ''## Usage'' [title_of p, description_of p, s]"
      "free_of ''## Notes'' [u]"
      "free_of ''```'' [title_of p, description_of p, s, u, notes_of p]"
    and fence: "\<forall>ch\<in>set (language_of p). is_word ch" "\<not> sublist ''\<newline>```'' c"
  shows "\<exists>q. parse_pattern_file safe_load (Inr (fst (format_pattern_markdown dump cn un p))) = Inr q
     \<and> p_code q = Some c
     \<and> p_setup q = Some (strip s)
     \<and> p_usage q = Some (strip u)
     \<and> p_metadata q = Some m2
     \<and> (\<forall>k v. k \<notin> {''created'', ''updated'', ''version''} \<longrightarrow> map_of m k = Some v \<longrightarrow>
            map_of m2 k = Some v)"
proof -
  let ?body = "body_text (title_of p) (description_of p) s u (notes_of p) (language_of p) c"
  have doc: "fst (format_pattern_markdown dump cn un p)
               = ''---\<newline>'' @ fm @ ''\<newline>---\<newline>'' @ ?body"
    using fields dumped(1) by (rule format_document)
  have fm: "match_frontmatter (''---\<newline>'' @ fm @ ''\<newline>---\<newline>'' @ ?body) = Some (fm, ?body)"
    using dumped(2) by (rule match_frontmatter_document)
  have sec_code: "search_code ?body = Some c"
    using markers(4) fence by (intro body_code) (simp_all add: free_of_def)
  have sec_setup: "extract_section ?body ''## Setup Instructions'' (Some ''## Usage'') = strip s"
    using markers(1,2) by (intro body_setup) (simp_all add: free_of_def)
  have sec_usage: "extract_section ?body ''## Usage'' (Some ''## Notes'') = strip u"
    using markers(2,3) by (intro body_usage) (simp_all add: free_of_def)
  have kept: "\<forall>k v. k \<notin> {''created'', ''updated'', ''version''} \<longrightarrow> map_of m k = Some v \<longrightarrow>
            map_of m2 k = Some v"
    by (simp add: loaded(2) map_of_stamp)
  have parsed: "parse_pattern_file safe_load (Inr (''---\<newline>'' @ fm @ ''\<newline>---\<newline>'' @ ?body))
     = Inr \<lparr>p_metadata = Some m2,
            p_description =
              Some (strip (extract_section ?body ''Description'' (Some ''## Code''))),
            p_code = Some c,
            p_setup = Some (strip s),
            p_usage = Some (strip u),
            p_notes = Some (strip (extract_section ?body ''## Notes'' None)),
            p_language = Some (get_default (map_of m2 ''language'') (PStr ''typescript''))\<rparr>"
    unfolding parse_pattern_file_def
    by (simp only: sum.case fm option.case prod.case loaded(1) Let_def sec_code sec_setup
        sec_usage pyval.case strip_strip)
  show ?thesis
    unfolding doc parsed using kept by simp
qed

theorem parse_format_roundtrip_witness:
  "\<exists>q. parse_pattern_file example_safe_load
          (Inr (fst (format_pattern_markdown example_dump (example_now 0) (example_now 1)
                       (example_pattern (complete_metadata 2) homepage_code)))) = Inr q
     \<and> p_code q = Some homepage_code
     \<and> p_setup q = Some ''None''
     \<and> p_usage q = Some ''Import it''
     \<and> p_metadata q = Some example_loaded
     \<and> map_of example_loaded ''task'' = Some (PStr ''create homepage'')
     \<and> map_of example_loaded ''complexity'' = Some (PInt 2)"
proof -
  let ?p = "example_pattern (complete_metadata 2) homepage_code"
  have fields: "p_metadata ?p = Some (complete_metadata 2)" "p_setup ?p = Some ''None''"
      "p_usage ?p = Some ''Import it''" "p_code ?p = Some homepage_code"
    by (simp_all add: example_pattern_def)
  have d1: "example_dump (stamp (example_now 0) (example_now 1) (complete_metadata 2))
              = example_frontmatter @ ''\<newline>''"
    by (simp add: example_dump_def)
  have d2: "\<not> sublist ''\<newline>---\<newline>'' (example_frontmatter @ ''\<newline>---'')"
    by code_simp
  have l1: "example_safe_load example_frontmatter = Inr (PDict example_loaded)"
    by (simp add: example_safe_load_def)
  have l2: "map_of example_loaded
              = map_of (stamp (example_now 0) (example_now 1) (complete_metadata 2))"
    by (rule ext)
       (simp add: example_loaded_def map_of_stamp complete_metadata_def example_now_def
          digit_char_def)
  have m1: "free_of ''## Setup Instructions'' [title_of ?p, description_of ?p]"
    by code_simp
  have m2: "free_of ''## Usage'' [title_of ?p, description_of ?p, ''None'']"
    by code_simp
  have m3: "free_of ''## Notes'' [''Import it'']"
    by code_simp
  have m4: "free_of ''```'' [title_of ?p, description_of ?p, ''None'', ''Import it'', notes_of ?p]"
    by code_simp
  have f1: "\<forall>ch\<in>set (language_of ?p). is_word ch"
    by code_simp
  have f2: "\<not> sublist ''\<newline>```'' homepage_code"
    by code_simp
  have s: "strip ''None'' = ''None''" "strip ''Import it'' = ''Import it''"
    by (simp_all add: strip_def lstrip_def rstrip_def is_space_def space_chars_def)
  have t: "map_of example_loaded ''task'' = Some (PStr ''create homepage'')
     \<and> map_of example_loaded ''complexity'' = Some (PInt 2)"
    by (simp add: example_loaded_def)
  from parse_format_roundtrip
         [where dump = example_dump and safe_load = example_safe_load
            and cn = "example_now 0" and un = "example_now 1",
          OF fields d1 d2 l1 l2 m1 m2 m3 m4 f1 f2] s t
  show ?thesis by auto
qed


text \<open>
  Claim C1. The claim asks that parsing a serialised pattern give back its
  description, code, setup, usage and notes. On the example pattern the code does not:
  the parser reads the description up to the \<^verbatim>\<open>## Code\<close> marker and the notes up
  to the end of the text, while the serialiser puts setup, usage and notes between the
  description and the code, and the code after the notes. The description
  \<^verbatim>\<open>A page\<close> comes back with the three sections that follow it, the notes
  \<^verbatim>\<open>Static\<close> with the code section; code, setup, usage and metadata come back as
  they were.
\<close>

theorem roundtrip_counterexample:
  "parse_pattern_file example_safe_load
     (Inr (fst (format_pattern_markdown example_dump (example_now 0) (example_now 1)
                  (example_pattern (complete_metadata 2) homepage_code))))
     = Inr \<lparr>p_metadata = Some example_loaded,
            p_description =
              Some (''A page\<newline>\<newline>## Setup Instructions\<newline>\<newline>None\<newline>\<newline>''
                    @ ''## Usage\<newline>\<newline>Import it\<newline>\<newline>## Notes\<newline>\<newline>Static''),
            p_code = Some homepage_code,
            p_setup = Some ''None'',
            p_usage = Some ''Import it'',
            p_notes = Some (''Static\<newline>\<newline>## Code\<newline>\<newline>```typescript\<newline>''
                            @ homepage_code @ ''\<newline>```''),
            p_language = Some (PStr ''typescript'')\<rparr>
   \<and> p_description (example_pattern (complete_metadata 2) homepage_code) = Some ''A page''
   \<and> p_notes (example_pattern (complete_metadata 2) homepage_code) = Some ''Static''"
  by code_simp


section \<open>Pattern Codec: the shape of a serialised pattern\<close>

text \<open>
  What the serialiser itself decides: the document opens with a \<^verbatim>\<open>---\<close> line,
  then the dump of the stamped metadata, then \<^verbatim>\<open>---\<close> and the body; the stamps are
  the two clock readings and \<^verbatim>\<open>1.0.0\<close>; the keys the pattern had keep their places
  in the dictionary handed to the dump. How the dump orders the keys in its text is
  the library's matter.
\<close>

lemma format_pattern_markdown_shape:
  "fst (format_pattern_markdown dump cn un p) =
     ''---\<newline>'' @ dump (stamp cn un (metadata_of p)) @ ''---\<newline>''
     @ body_text (title_of p) (description_of p)
         (get_default (p_setup p) ''No additional setup required.'')
         (get_default (p_usage p) []) (notes_of p) (language_of p) (code_of p)"
  by (simp add: format_pattern_markdown_def Let_def body_text_def title_of_def description_of_def
      notes_of_def language_of_def metadata_of_def code_of_def map_of_stamp)

lemma stamp_keeps_order:
  "\<exists>new. map fst (stamp cn un m) = map fst m @ new"
proof -
  have u: "\<exists>new. map fst (AList.update k v al) = map fst al @ new"
    for k :: string and v :: pyval and al :: meta
    by (induction al) auto
  show ?thesis
    unfolding stamp_def using u by (metis append.assoc)
qed

end
